theory Spec2Isabelle
  imports Complex_Main "HOL-Library.Word"
begin

section \<open>Ledger-backed CryptoNote helper: a shallow embedding\<close>

text \<open>
  The development follows \<^verbatim>\<open>src/LedgerNote.ts\<close> (the CryptoNote helper and the
  transaction builder) and \<^verbatim>\<open>dist/LedgerDevice.js\<close> (the device client and its
  APDU exchange). JavaScript numbers are modelled as \<open>int\<close> (the rounding of
  doubles beyond \<open>2^53\<close> is not modelled), array lengths and counts as \<open>nat\<close>,
  strings as \<open>string\<close>, buffers as lists of bytes. A rejected promise or a thrown
  exception is the \<open>Inl\<close> of a sum.
\<close>

subsection \<open>Errors\<close>

text \<open>
  \<open>Error m\<close> and \<open>RangeError m\<close> stand for \<^verbatim>\<open>new Error(m)\<close> and
  \<^verbatim>\<open>new RangeError(m)\<close> with a fixed message. The constructors that carry a number
  stand for the messages built by concatenation:
  \<open>RequestFailed c\<close> for \<^verbatim>\<open>'Could not complete request: ' + c\<close>,
  \<open>FusionMinInputs n\<close> for the fusion message quoting \<^verbatim>\<open>fusionMinInputCount\<close>,
  \<open>OutputAmountTooLarge m\<close> for \<^verbatim>\<open>'Cannot create an output with an amount > ' + m\<close>.
  \<open>ReaderError\<close> is the exception of the byte-stream reader on a read past the end
  of its buffer, and \<open>External m\<close> an exception of a collaborator outside this
  code (transport, cryptography provider, address codec, transaction decoder).
\<close>

datatype error =
    Error string
  | RangeError string
  | RequestFailed nat
  | FusionMinInputs int
  | OutputAmountTooLarge int
  | ReaderError
  | External string

subsection \<open>Offsets\<close>

text \<open>
  Modelled from the spec: \<^verbatim>\<open>Common.absoluteToRelativeOffsets\<close> is called by the
  helper but its file is not part of the sources. The spec says: first element
  unchanged; each subsequent element is the difference from its predecessor.
\<close>

fun relative_from :: "int \<Rightarrow> int list \<Rightarrow> int list" where
  "relative_from prev [] = []"
| "relative_from prev (a # as) = (a - prev) # relative_from a as"

definition Common_absoluteToRelativeOffsets :: "int list \<Rightarrow> int list" where
  "Common_absoluteToRelativeOffsets offsets =
     (case offsets of [] \<Rightarrow> [] | a # as \<Rightarrow> a # relative_from a as)"

text \<open>
  Modelled from the spec: \<^verbatim>\<open>Common.relativeToAbsoluteOffsets\<close>, likewise absent from
  the sources, is the inverse prefix sum.
\<close>

fun absolute_from :: "int \<Rightarrow> int list \<Rightarrow> int list" where
  "absolute_from acc [] = []"
| "absolute_from acc (r # rs) = (acc + r) # absolute_from (acc + r) rs"

definition Common_relativeToAbsoluteOffsets :: "int list \<Rightarrow> int list" where
  "Common_relativeToAbsoluteOffsets offsets =
     (case offsets of [] \<Rightarrow> [] | r # rs \<Rightarrow> r # absolute_from r rs)"

text \<open>
  \<^verbatim>\<open>BigInteger.toJSNumber\<close> gives the JavaScript number, a double, nearest to the
  integer. Up to \<open>2^53 = 9007199254740992\<close> in magnitude that is the integer itself.
  Beyond, the double keeps the 53 leading bits, rounded to nearest with ties to the
  even neighbour. \<open>bit_length n\<close> is the number of binary digits of \<open>n\<close>.
  (Magnitudes from \<open>2^1024\<close> on, where the double is infinite, are outside the model.)
\<close>

fun bit_length :: "nat \<Rightarrow> nat" where
  "bit_length n = (if n = 0 then 0 else Suc (bit_length (n div 2)))"

declare bit_length.simps [simp del]

definition toJSNumber :: "int \<Rightarrow> int" where
  "toJSNumber b =
     (if \<bar>b\<bar> \<le> 9007199254740992 then b
      else
        let a = \<bar>b\<bar>;
            e = bit_length (nat a) - 53;
            q = a div 2 ^ e;
            r = a mod 2 ^ e;
            half = 2 ^ (e - 1);
            q' = (if r > half \<or> (r = half \<and> odd q) then q + 1 else q)
        in sgn b * (q' * 2 ^ e))"

text \<open>
  \<^verbatim>\<open>LedgerNote.absoluteToRelativeOffsets\<close> and \<^verbatim>\<open>relativeToAbsoluteOffsets\<close>
  (LedgerNote.ts, lines 140-163): call the \<^verbatim>\<open>Common\<close> function and push the
  JavaScript number of every element onto a fresh array.
\<close>

definition absoluteToRelativeOffsets :: "int list \<Rightarrow> int list" where
  "absoluteToRelativeOffsets offsets =
     foldl (\<lambda>result offset. result @ [toJSNumber offset]) []
       (Common_absoluteToRelativeOffsets offsets)"

definition relativeToAbsoluteOffsets :: "int list \<Rightarrow> int list" where
  "relativeToAbsoluteOffsets offsets =
     foldl (\<lambda>result offset. result @ [toJSNumber offset]) []
       (Common_relativeToAbsoluteOffsets offsets)"

subsection \<open>Configuration\<close>

text \<open>
  The configuration keys the modelled functions read. The helper holds
  \<^verbatim>\<open>this.config\<close> and falls back to the module's \<^verbatim>\<open>Config\<close> through
  \<^verbatim>\<open>this.config.k || Config.k\<close>; \<open>js_or\<close> is that \<^verbatim>\<open>||\<close> on numbers (zero is
  the falsy number).
\<close>

record Config =
  defaultNetworkFee :: int
  fusionMinInputCount :: int
  fusionMinInOutCountRatio :: rat
  maximumOutputAmount :: int
  maximumOutputsPerTransaction :: int
  activateFeePerByteTransactions :: bool
  maximumLedgerTransactionSize :: int

definition js_or :: "'a::zero \<Rightarrow> 'a \<Rightarrow> 'a" where
  "js_or a b = (if a \<noteq> 0 then a else b)"

subsection \<open>Addresses and generated outputs\<close>

text \<open>
  Of an \<^verbatim>\<open>Address\<close> the helper reads the payment id and the two public keys. The
  address codec (\<^verbatim>\<open>Address.fromAddress\<close>) is outside this code and is a parameter
  \<open>fromAddress\<close> that may fail.
\<close>

record Address =
  addr_paymentId :: string
  addr_spend_publicKey :: string
  addr_view_publicKey :: string

record GeneratedOutput =
  go_amount :: int
  go_destination :: Address

subsection \<open>generateTransactionOutputs\<close>

text \<open>
  \<^verbatim>\<open>amount.toString()\<close> of a non-negative integer (below \<open>10^21\<close>, where JavaScript
  switches to exponent notation) is its decimal numeral, and \<^verbatim>\<open>parseInt(c, 10)\<close> of
  one of its characters is the digit's value.
\<close>

fun toString :: "nat \<Rightarrow> string" where
  "toString n =
     (if n < 10 then [''0123456789'' ! n]
      else toString (n div 10) @ [''0123456789'' ! (n mod 10)])"

declare toString.simps [simp del]

definition parseInt :: "char \<Rightarrow> int" where
  "parseInt c = int (of_char c) - 48"

text \<open>
  The inner \<^verbatim>\<open>while (splitAmt >= max)\<close> loop of lines 439-445. With a maximum that
  is not positive the loop never ends: that is the value \<open>None\<close>.
\<close>

partial_function (option) split_loop ::
  "int \<Rightarrow> Address \<Rightarrow> int \<Rightarrow> GeneratedOutput list \<Rightarrow> GeneratedOutput list option" where
  "split_loop mx dest splitAmt result =
     (if splitAmt \<ge> mx
      then split_loop mx dest (splitAmt - mx)
             (result @ [\<lparr>go_amount = mx, go_destination = dest\<rparr>])
      else Some result)"

text \<open>The \<^verbatim>\<open>for\<close> loop over the reversed digits (lines 433-452), \<open>i\<close> the position.\<close>

fun pieces_loop ::
  "int \<Rightarrow> Address \<Rightarrow> nat \<Rightarrow> string \<Rightarrow> GeneratedOutput list \<Rightarrow> GeneratedOutput list option" where
  "pieces_loop mx dest i [] result = Some result"
| "pieces_loop mx dest i (c # cs) result =
     (let amt = parseInt c * 10 ^ i in
      if amt > mx then
        (case split_loop mx dest amt result of
           None \<Rightarrow> None
         | Some result' \<Rightarrow> pieces_loop mx dest (Suc i) cs result')
      else if amt \<noteq> 0 then
        pieces_loop mx dest (Suc i) cs (result @ [\<lparr>go_amount = amt, go_destination = dest\<rparr>])
      else pieces_loop mx dest (Suc i) cs result)"

text \<open>
  The sum of the digit pieces of the loop: the digit at position \<open>i + j\<close> times
  \<open>10 ^ (i + j)\<close>, for the \<open>j\<close>-th character of the list.
\<close>

fun pieces_total :: "nat \<Rightarrow> string \<Rightarrow> int" where
  "pieces_total i [] = 0"
| "pieces_total i (c # cs) = parseInt c * 10 ^ i + pieces_total (Suc i) cs"

definition generateTransactionOutputs ::
  "(string \<Rightarrow> error + Address) \<Rightarrow> Config \<Rightarrow> Config \<Rightarrow> string \<Rightarrow> int
     \<Rightarrow> (error + GeneratedOutput list) option" where
  "generateTransactionOutputs fromAddress this_config Config_json address amount =
     (if amount < 0 then Some (Inl (RangeError ''Amount must be a positive value''))
      else case fromAddress address of
        Inl e \<Rightarrow> Some (Inl e)
      | Inr destination \<Rightarrow>
          map_option Inr
            (pieces_loop
               (js_or (maximumOutputAmount this_config) (maximumOutputAmount Config_json))
               destination 0 (rev (toString (nat amount))) []))"

subsection \<open>Bytes, hex strings, the byte-stream writer and reader\<close>

text \<open>
  The \<^verbatim>\<open>bytestream-helper\<close> package is a dependency, not part of this code. Its
  writer appends big-endian integers and hex strings rendered to raw bytes; its reader
  consumes them and throws on a read past the end. A reader is modelled by the list
  of its unread bytes.
\<close>

type_synonym byte = "8 word"

definition is_hex_char :: "char \<Rightarrow> bool" where
  "is_hex_char c = (c \<in> set ''0123456789abcdefABCDEF'')"

definition hex_val :: "char \<Rightarrow> nat" where
  "hex_val c =
     (let n = of_char c in
      if 48 \<le> n \<and> n \<le> 57 then n - 48
      else if 97 \<le> n \<and> n \<le> 102 then n - 87
      else n - 55)"

fun hex_to_bytes :: "string \<Rightarrow> byte list" where
  "hex_to_bytes (a # b # rest) = word_of_nat (hex_val a * 16 + hex_val b) # hex_to_bytes rest"
| "hex_to_bytes _ = []"

definition bytes_to_hex :: "byte list \<Rightarrow> string" where
  "bytes_to_hex bs =
     concat (map (\<lambda>b. [''0123456789abcdef'' ! (unat b div 16),
                        ''0123456789abcdef'' ! (unat b mod 16)]) bs)"

text \<open>
  The integer writers, called with the big-endian flag throughout (or with the value
  0): the bytes of the value, most significant first, each reduced modulo 256.
\<close>

definition writer_uint8_t :: "int \<Rightarrow> byte list" where
  "writer_uint8_t v = [word_of_int v]"

definition writer_uint16_t :: "int \<Rightarrow> byte list" where
  "writer_uint16_t v = [word_of_int (v div 256), word_of_int v]"

definition writer_uint32_t :: "int \<Rightarrow> byte list" where
  "writer_uint32_t v =
     [word_of_int (v div 16777216), word_of_int (v div 65536), word_of_int (v div 256),
      word_of_int v]"

definition writer_uint64_t :: "int \<Rightarrow> byte list" where
  "writer_uint64_t v =
     [word_of_int (v div 72057594037927936), word_of_int (v div 281474976710656),
      word_of_int (v div 1099511627776), word_of_int (v div 4294967296),
      word_of_int (v div 16777216), word_of_int (v div 65536), word_of_int (v div 256),
      word_of_int v]"

definition writer_hash :: "string \<Rightarrow> byte list" where
  "writer_hash h = hex_to_bytes h"

definition writer_hex :: "string \<Rightarrow> byte list" where
  "writer_hex h = hex_to_bytes h"

definition reader_bytes :: "nat \<Rightarrow> byte list \<Rightarrow> error + (byte list \<times> byte list)" where
  "reader_bytes n r = (if length r < n then Inl ReaderError else Inr (take n r, drop n r))"

definition be_value :: "byte list \<Rightarrow> nat" where
  "be_value bs = foldl (\<lambda>acc b. acc * 256 + unat b) 0 bs"

definition reader_uint8_t :: "byte list \<Rightarrow> error + (int \<times> byte list)" where
  "reader_uint8_t r = map_sum id (\<lambda>(bs, rest). (int (be_value bs), rest)) (reader_bytes 1 r)"

definition reader_uint16_t :: "byte list \<Rightarrow> error + (int \<times> byte list)" where
  "reader_uint16_t r = map_sum id (\<lambda>(bs, rest). (int (be_value bs), rest)) (reader_bytes 2 r)"

definition reader_hash :: "byte list \<Rightarrow> error + (string \<times> byte list)" where
  "reader_hash r = map_sum id (\<lambda>(bs, rest). (bytes_to_hex bs, rest)) (reader_bytes 32 r)"

definition reader_hex :: "nat \<Rightarrow> byte list \<Rightarrow> error + (string \<times> byte list)" where
  "reader_hex n r = map_sum id (\<lambda>(bs, rest). (bytes_to_hex bs, rest)) (reader_bytes n r)"

subsection \<open>Computations with a state that may throw\<close>

text \<open>
  An \<^verbatim>\<open>async\<close> method is a function from the state before to the outcome and the
  state after; \<open>Inl\<close> is a rejection. \<open>io_bind\<close> is \<^verbatim>\<open>await\<close> followed by the rest
  of the body, \<open>io_finally\<close> is \<^verbatim>\<open>try { body } finally { await cleanup }\<close>: the
  cleanup always runs, and its own rejection replaces the outcome of the body.
\<close>

type_synonym ('a, 's) io = "'s \<Rightarrow> (error + 'a) \<times> 's"

definition io_return :: "'a \<Rightarrow> ('a, 's) io" where
  "io_return x = (\<lambda>s. (Inr x, s))"

definition io_throw :: "error \<Rightarrow> ('a, 's) io" where
  "io_throw e = (\<lambda>s. (Inl e, s))"

definition io_bind :: "('a, 's) io \<Rightarrow> ('a \<Rightarrow> ('b, 's) io) \<Rightarrow> ('b, 's) io" where
  "io_bind m f = (\<lambda>s. case m s of (Inl e, s') \<Rightarrow> (Inl e, s') | (Inr x, s') \<Rightarrow> f x s')"

definition io_pure :: "error + 'a \<Rightarrow> ('a, 's) io" where
  "io_pure r = (\<lambda>s. (r, s))"

definition io_finally :: "('a, 's) io \<Rightarrow> (unit, 's) io \<Rightarrow> ('a, 's) io" where
  "io_finally body cleanup =
     (\<lambda>s. case body s of (r, s') \<Rightarrow>
        (case cleanup s' of (Inl e, s'') \<Rightarrow> (Inl e, s'') | (Inr u, s'') \<Rightarrow> (r, s'')))"

subsection \<open>The device client: constants\<close>

datatype CMD =
    VERSION | DEBUG | IDENT | PUBLIC_KEYS | VIEW_SECRET_KEY | SPEND_ESECRET_KEY
  | CHECK_KEY | CHECK_SCALAR | PRIVATE_TO_PUBLIC | RANDOM_KEY_PAIR | ADDRESS
  | GENERATE_KEY_IMAGE | GENERATE_RING_SIGNATURES | COMPLETE_RING_SIGNATURE
  | CHECK_RING_SIGNATURES | GENERATE_SIGNATURE | CHECK_SIGNATURE
  | GENERATE_KEY_DERIVATION | DERIVE_PUBLIC_KEY | DERIVE_SECRET_KEY
  | TX_STATE | TX_START | TX_START_INPUT_LOAD | TX_LOAD_INPUT | TX_START_OUTPUT_LOAD
  | TX_LOAD_OUTPUT | TX_FINALIZE_TX_PREFIX | TX_SIGN | TX_DUMP | TX_RESET | RESET_KEYS

fun CMD_code :: "CMD \<Rightarrow> int" where
  "CMD_code VERSION = 1"
| "CMD_code DEBUG = 2"
| "CMD_code IDENT = 5"
| "CMD_code PUBLIC_KEYS = 16"
| "CMD_code VIEW_SECRET_KEY = 17"
| "CMD_code SPEND_ESECRET_KEY = 18"
| "CMD_code CHECK_KEY = 22"
| "CMD_code CHECK_SCALAR = 23"
| "CMD_code PRIVATE_TO_PUBLIC = 24"
| "CMD_code RANDOM_KEY_PAIR = 25"
| "CMD_code ADDRESS = 48"
| "CMD_code GENERATE_KEY_IMAGE = 64"
| "CMD_code GENERATE_RING_SIGNATURES = 80"
| "CMD_code COMPLETE_RING_SIGNATURE = 81"
| "CMD_code CHECK_RING_SIGNATURES = 82"
| "CMD_code GENERATE_SIGNATURE = 85"
| "CMD_code CHECK_SIGNATURE = 86"
| "CMD_code GENERATE_KEY_DERIVATION = 96"
| "CMD_code DERIVE_PUBLIC_KEY = 97"
| "CMD_code DERIVE_SECRET_KEY = 98"
| "CMD_code TX_STATE = 112"
| "CMD_code TX_START = 113"
| "CMD_code TX_START_INPUT_LOAD = 114"
| "CMD_code TX_LOAD_INPUT = 115"
| "CMD_code TX_START_OUTPUT_LOAD = 116"
| "CMD_code TX_LOAD_OUTPUT = 117"
| "CMD_code TX_FINALIZE_TX_PREFIX = 118"
| "CMD_code TX_SIGN = 119"
| "CMD_code TX_DUMP = 120"
| "CMD_code TX_RESET = 121"
| "CMD_code RESET_KEYS = 255"

datatype TransactionState =
    INACTIVE | READY | RECEIVING_INPUTS | INPUTS_RECEIVED | RECEIVING_OUTPUTS
  | OUTPUTS_RECEIVED | PREFIX_READY | COMPLETE

fun TransactionState_code :: "TransactionState \<Rightarrow> int" where
  "TransactionState_code INACTIVE = 0"
| "TransactionState_code READY = 1"
| "TransactionState_code RECEIVING_INPUTS = 2"
| "TransactionState_code INPUTS_RECEIVED = 3"
| "TransactionState_code RECEIVING_OUTPUTS = 4"
| "TransactionState_code OUTPUTS_RECEIVED = 5"
| "TransactionState_code PREFIX_READY = 6"
| "TransactionState_code COMPLETE = 7"

text \<open>
  The \<^verbatim>\<open>APDU\<close> enumeration; its member \<^verbatim>\<open>INS = 224\<close> is the byte written first,
  the class byte \<open>0xE0\<close> of the protocol.
\<close>

definition APDU_P2 :: int where "APDU_P2 = 0"
definition APDU_P1_NON_CONFIRM :: int where "APDU_P1_NON_CONFIRM = 0"
definition APDU_P1_CONFIRM :: int where "APDU_P1_CONFIRM = 1"
definition APDU_INS :: int where "APDU_INS = 224"
definition ErrorCode_OK :: int where "ErrorCode_OK = 36864"

subsection \<open>The device client: validation\<close>

text \<open>
  \<^verbatim>\<open>isHex\<close>, \<^verbatim>\<open>isHex64\<close>, \<^verbatim>\<open>isHex128\<close> (LedgerDevice.js, lines 794-812).
  \<open>regex_hex_test n\<close> is \<^verbatim>\<open>new RegExp('^[0-9a-fA-F]{' + n + '}$').test\<close>.
\<close>

definition regex_hex_test :: "nat \<Rightarrow> string \<Rightarrow> bool" where
  "regex_hex_test n v = (length v = n \<and> list_all is_hex_char v)"

definition isHex :: "string \<Rightarrow> bool" where
  "isHex v = (if length v mod 2 \<noteq> 0 then False else regex_hex_test (length v) v)"

definition isHex64 :: "string \<Rightarrow> bool" where
  "isHex64 v = (isHex v \<and> length v = 64)"

definition isHex128 :: "string \<Rightarrow> bool" where
  "isHex128 v = (isHex v \<and> length v = 128)"

subsection \<open>The device client: exchange\<close>

text \<open>
  The transport is outside this code. It is modelled by a function from the requests
  handed to it so far (the last one the current request) to its answer: bytes, or a
  rejection. The state of the device client is the list of requests handed to the
  transport, oldest first. The \<^verbatim>\<open>send\<close> and \<^verbatim>\<open>receive\<close> events are not modelled.
\<close>

type_synonym sent = "byte list list"
type_synonym transport = "byte list list \<Rightarrow> error + byte list"

definition transport_exchange :: "transport \<Rightarrow> byte list \<Rightarrow> (byte list, sent) io" where
  "transport_exchange transport request =
     (\<lambda>sent. (transport (sent @ [request]), sent @ [request]))"

text \<open>A \<^verbatim>\<open>confirm = true\<close> default parameter: \<open>None\<close> is \<^verbatim>\<open>undefined\<close>.\<close>

definition default_true :: "bool option \<Rightarrow> bool" where
  "default_true confirm = (case confirm of None \<Rightarrow> True | Some b \<Rightarrow> b)"

text \<open>Lines 753-772 of \<^verbatim>\<open>exchange\<close>: the request, or the local rejection.\<close>

definition exchange_request :: "CMD \<Rightarrow> bool option \<Rightarrow> byte list option \<Rightarrow> error + byte list" where
  "exchange_request command confirm data =
     (let writer = writer_uint8_t APDU_INS @ writer_uint8_t (CMD_code command)
            @ (if default_true confirm then writer_uint8_t APDU_P1_CONFIRM
               else writer_uint8_t APDU_P1_NON_CONFIRM)
            @ writer_uint8_t APDU_P2
      in case data of
           Some d \<Rightarrow>
             if length d > 512 - 6 then Inl (Error ''Data payload exceeds maximum size'')
             else Inr (writer @ writer_uint16_t (int (length d)) @ d)
         | None \<Rightarrow> Inr (writer @ writer_uint16_t 0))"

text \<open>
  Lines 776-786: the last two bytes are the status word; the rest is the body, handed
  back as a reader.
\<close>

definition exchange_response :: "byte list \<Rightarrow> error + byte list" where
  "exchange_response result =
     (let code = drop (length result - 2) result;
          response = take (length result - length code) result
      in case reader_uint16_t code of
           Inl e \<Rightarrow> Inl e
         | Inr (errCode, rest) \<Rightarrow>
             if errCode \<noteq> ErrorCode_OK then
               (if length response \<ge> 2 then
                  (case reader_uint16_t response of
                     Inl e \<Rightarrow> Inl e
                   | Inr (errCode', rest') \<Rightarrow> Inl (RequestFailed (nat errCode')))
                else Inl (RequestFailed (nat errCode)))
             else Inr response)"

definition exchange :: "transport \<Rightarrow> CMD \<Rightarrow> bool option \<Rightarrow> byte list option \<Rightarrow> (byte list, sent) io" where
  "exchange transport command confirm data =
     io_bind (io_pure (exchange_request command confirm data)) (\<lambda>request.
     io_bind (transport_exchange transport request) (\<lambda>result.
     io_pure (exchange_response result)))"

subsection \<open>The device client: operations\<close>

definition sum_bind :: "error + 'a \<Rightarrow> ('a \<Rightarrow> error + 'b) \<Rightarrow> error + 'b" where
  "sum_bind r f = (case r of Inl e \<Rightarrow> Inl e | Inr x \<Rightarrow> f x)"

text \<open>\<^verbatim>\<open>result.uint8_t().toJSNumber() === 1\<close> on the reader an exchange returned.\<close>

definition reads_one :: "byte list \<Rightarrow> error + bool" where
  "reads_one result = sum_bind (reader_uint8_t result) (\<lambda>(v, rest). Inr (v = 1))"

definition reads_hash :: "byte list \<Rightarrow> error + string" where
  "reads_hash result = sum_bind (reader_hash result) (\<lambda>(h, rest). Inr h)"

definition checkKey :: "transport \<Rightarrow> string \<Rightarrow> (bool, sent) io" where
  "checkKey transport key =
     (if \<not> isHex64 key then io_throw (Error ''Malformed key supplied'')
      else io_bind (exchange transport CHECK_KEY None (Some (writer_hash key))) (\<lambda>result.
           io_pure (reads_one result)))"

definition checkScalar :: "transport \<Rightarrow> string \<Rightarrow> (bool, sent) io" where
  "checkScalar transport scalar =
     (if \<not> isHex64 scalar then io_throw (Error ''Malformed key supplied'')
      else io_bind (exchange transport CHECK_SCALAR None (Some (writer_hash scalar))) (\<lambda>result.
           io_pure (reads_one result)))"

record PublicKeys =
  pk_spend :: string
  pk_view :: string

definition getPublicKeys :: "transport \<Rightarrow> bool option \<Rightarrow> (PublicKeys, sent) io" where
  "getPublicKeys transport confirm =
     io_bind (exchange transport PUBLIC_KEYS (Some (default_true confirm)) None) (\<lambda>result.
     io_pure (sum_bind (reader_hash result) (\<lambda>(s, rest).
              sum_bind (reader_hash rest) (\<lambda>(v, rest').
              Inr \<lparr>pk_spend = s, pk_view = v\<rparr>))))"

definition getPrivateViewKey :: "transport \<Rightarrow> bool option \<Rightarrow> (string, sent) io" where
  "getPrivateViewKey transport confirm =
     io_bind (exchange transport VIEW_SECRET_KEY (Some (default_true confirm)) None) (\<lambda>result.
     io_pure (reads_hash result))"

definition privateToPublic :: "transport \<Rightarrow> string \<Rightarrow> (string, sent) io" where
  "privateToPublic transport private_key =
     (if \<not> isHex64 private_key then io_throw (Error ''Malformed private_key supplied'')
      else io_bind (exchange transport PRIVATE_TO_PUBLIC None (Some (writer_hash private_key)))
             (\<lambda>result. io_pure (reads_hash result)))"

record KeyPair =
  kp_publicKey :: string
  kp_privateKey :: string

text \<open>
  \<^verbatim>\<open>getRandomKeyPair\<close> returns the two hashes read; the helper reads them as the
  \<^verbatim>\<open>publicKey\<close> and \<^verbatim>\<open>privateKey\<close> of a key pair.
\<close>

definition getRandomKeyPair :: "transport \<Rightarrow> (KeyPair, sent) io" where
  "getRandomKeyPair transport =
     io_bind (exchange transport RANDOM_KEY_PAIR None None) (\<lambda>result.
     io_pure (sum_bind (reader_hash result) (\<lambda>(pub, rest).
              sum_bind (reader_hash rest) (\<lambda>(priv, rest').
              Inr \<lparr>kp_publicKey = pub, kp_privateKey = priv\<rparr>))))"

definition LedgerDevice_generateKeyImage ::
  "transport \<Rightarrow> string \<Rightarrow> int \<Rightarrow> string \<Rightarrow> bool option \<Rightarrow> (string, sent) io" where
  "LedgerDevice_generateKeyImage transport tx_public_key output_index output_key confirm =
     (if \<not> isHex64 tx_public_key then io_throw (Error ''Malformed tx_public_key supplied'')
      else if output_index < 0 then io_throw (Error ''output_index must be >= 0'')
      else if \<not> isHex64 output_key then io_throw (Error ''Malformed output_key supplied'')
      else io_bind (exchange transport GENERATE_KEY_IMAGE (Some (default_true confirm))
                      (Some (writer_hash tx_public_key @ writer_uint32_t output_index
                             @ writer_hash output_key)))
             (\<lambda>result. io_pure (reads_hash result)))"

definition completeRingSignature ::
  "transport \<Rightarrow> string \<Rightarrow> int \<Rightarrow> string \<Rightarrow> string \<Rightarrow> string \<Rightarrow> bool option
     \<Rightarrow> (string, sent) io" where
  "completeRingSignature transport tx_public_key output_index output_key k signature confirm =
     (if \<not> isHex64 tx_public_key then io_throw (Error ''Malformed tx_public_key supplied'')
      else if output_index < 0 then io_throw (Error ''output_index must be >= 0'')
      else if \<not> isHex64 output_key then io_throw (Error ''Malformed output_key supplied'')
      else if \<not> isHex64 k then io_throw (Error ''Malformed k supplied'')
      else if \<not> isHex128 signature then io_throw (Error ''Malformed signature supplied'')
      else io_bind (exchange transport COMPLETE_RING_SIGNATURE (Some (default_true confirm))
                      (Some (writer_hash tx_public_key @ writer_uint32_t output_index
                             @ writer_hash output_key @ writer_hash k @ writer_hex signature)))
             (\<lambda>result. io_pure (sum_bind (reader_hex 64 result) (\<lambda>(h, rest). Inr h))))"

definition generateSignature :: "transport \<Rightarrow> string \<Rightarrow> bool option \<Rightarrow> (string, sent) io" where
  "generateSignature transport message_digest confirm =
     (if \<not> isHex64 message_digest then io_throw (Error ''Malformed message_digest supplied'')
      else io_bind (exchange transport GENERATE_SIGNATURE (Some (default_true confirm))
                      (Some (writer_hash message_digest)))
             (\<lambda>result.
                if length result \<noteq> 64
                then io_throw (Error ''Data returned does not appear to be a signature'')
                else io_pure (sum_bind (reader_hex 64 result) (\<lambda>(h, rest). Inr h))))"

definition generateKeyDerivation_device ::
  "transport \<Rightarrow> string \<Rightarrow> bool option \<Rightarrow> (string, sent) io" where
  "generateKeyDerivation_device transport tx_public_key confirm =
     (if \<not> isHex64 tx_public_key then io_throw (Error ''Malformed tx_public_key supplied'')
      else io_bind (exchange transport GENERATE_KEY_DERIVATION (Some (default_true confirm))
                      (Some (writer_hash tx_public_key)))
             (\<lambda>result. io_pure (reads_hash result)))"

definition checkSignature ::
  "transport \<Rightarrow> string \<Rightarrow> string \<Rightarrow> string \<Rightarrow> (bool, sent) io" where
  "checkSignature transport message_digest public_key signature =
     (if \<not> isHex64 message_digest then io_throw (Error ''Malformed message_disgest supplied'')
      else if \<not> isHex64 public_key then io_throw (Error ''Malformed public_key supplied'')
      else if \<not> isHex128 signature then io_throw (Error ''Malformed signature supplied'')
      else io_bind (exchange transport CHECK_SIGNATURE None
                      (Some (writer_hash message_digest @ writer_hash public_key
                             @ writer_hex signature)))
             (\<lambda>result. io_pure (reads_one result)))"

subsection \<open>The device client: transaction construction\<close>

definition transactionState :: "transport \<Rightarrow> (int, sent) io" where
  "transactionState transport =
     io_bind (exchange transport TX_STATE None None) (\<lambda>result.
     io_pure (sum_bind (reader_uint8_t result) (\<lambda>(v, rest). Inr v)))"

definition resetTransaction :: "transport \<Rightarrow> bool option \<Rightarrow> (unit, sent) io" where
  "resetTransaction transport confirm =
     io_bind (exchange transport TX_RESET (Some (default_true confirm)) None) (\<lambda>result.
     io_return ())"

text \<open>\<^verbatim>\<open>if (payment_id)\<close>: an undefined or empty string is falsy.\<close>

definition truthy :: "string option \<Rightarrow> bool" where
  "truthy v = (case v of None \<Rightarrow> False | Some x \<Rightarrow> x \<noteq> [])"

definition string_of :: "string option \<Rightarrow> string" where
  "string_of v = (case v of None \<Rightarrow> [] | Some x \<Rightarrow> x)"

definition startTransaction ::
  "transport \<Rightarrow> int \<Rightarrow> int \<Rightarrow> int \<Rightarrow> string \<Rightarrow> string option \<Rightarrow> (unit, sent) io" where
  "startTransaction transport unlock_time input_count output_count tx_public_key payment_id =
     (if input_count > 90 \<or> input_count < 0
      then io_throw (RangeError ''input_count not in range'')
      else if output_count > 90 \<or> output_count < 0
      then io_throw (RangeError ''output_count not in range'')
      else if \<not> isHex64 tx_public_key
      then io_throw (Error ''Malformed tx_public_key supplied'')
      else if truthy payment_id \<and> \<not> isHex64 (string_of payment_id)
      then io_throw (Error ''Malformed payment_id supplied'')
      else io_bind
             (exchange transport TX_START None
                (Some (writer_uint64_t unlock_time @ writer_uint8_t input_count
                       @ writer_uint8_t output_count @ writer_hash tx_public_key
                       @ (if truthy payment_id
                          then writer_uint8_t 1 @ writer_hash (string_of payment_id)
                          else writer_uint8_t 0))))
             (\<lambda>result. io_return ()))"

definition startTransactionInputLoad :: "transport \<Rightarrow> (unit, sent) io" where
  "startTransactionInputLoad transport =
     io_bind (exchange transport TX_START_INPUT_LOAD None None) (\<lambda>result. io_return ())"

text \<open>
  \<^verbatim>\<open>loadTransactionInput\<close> reads \<^verbatim>\<open>maximumOutputAmount\<close> from the module's
  configuration file, the parameter \<open>Config_json\<close>.
\<close>

definition loadTransactionInput ::
  "transport \<Rightarrow> Config \<Rightarrow> string \<Rightarrow> int \<Rightarrow> int \<Rightarrow> string list \<Rightarrow> int list \<Rightarrow> int
     \<Rightarrow> (unit, sent) io" where
  "loadTransactionInput transport Config_json input_tx_public_key input_output_index amount
       public_keys offsets real_output_index =
     (if \<not> isHex64 input_tx_public_key then io_throw (Error ''Malformed input_tx_public_key'')
      else if input_output_index > 255 \<or> input_output_index < 0
      then io_throw (RangeError ''input_output_index out of range'')
      else if amount > maximumOutputAmount Config_json \<or> amount < 0
      then io_throw (RangeError ''amount out of range'')
      else if length public_keys \<noteq> 4
      then io_throw (Error ''Must supply four (4) public_key values'')
      else if \<not> list_all isHex64 public_keys
      then io_throw (Error ''Malformed public_key supplied'')
      else if length offsets \<noteq> 4
      then io_throw (Error ''Must supply four (4) offset values'')
      else if \<not> list_all (\<lambda>offset. \<not> (offset < 0 \<or> offset > 4294967295)) offsets
      then io_throw (RangeError ''offset value out of range'')
      else if real_output_index > 3 \<or> real_output_index < 0
      then io_throw (RangeError ''real_output_index out of range'')
      else io_bind
             (exchange transport TX_LOAD_INPUT None
                (Some (writer_hash input_tx_public_key @ writer_uint8_t input_output_index
                       @ writer_uint64_t amount @ concat (map writer_hash public_keys)
                       @ concat (map writer_uint32_t offsets)
                       @ writer_uint8_t real_output_index)))
             (\<lambda>result. io_return ()))"

definition startTransactionOutputLoad :: "transport \<Rightarrow> (unit, sent) io" where
  "startTransactionOutputLoad transport =
     io_bind (exchange transport TX_START_OUTPUT_LOAD None None) (\<lambda>result. io_return ())"

definition loadTransactionOutput ::
  "transport \<Rightarrow> Config \<Rightarrow> int \<Rightarrow> string \<Rightarrow> (unit, sent) io" where
  "loadTransactionOutput transport Config_json amount output_key =
     (if amount < 0 \<or> amount > maximumOutputAmount Config_json
      then io_throw (Error ''amount out of range'')
      else if \<not> isHex64 output_key then io_throw (Error ''Malformed output_key supplied'')
      else io_bind
             (exchange transport TX_LOAD_OUTPUT None
                (Some (writer_uint64_t amount @ writer_hash output_key)))
             (\<lambda>result. io_return ()))"

definition finalizeTransactionPrefix :: "transport \<Rightarrow> (unit, sent) io" where
  "finalizeTransactionPrefix transport =
     io_bind (exchange transport TX_FINALIZE_TX_PREFIX None None) (\<lambda>result. io_return ())"

record SignResult =
  sr_hash :: string
  sr_size :: int

definition signTransaction :: "transport \<Rightarrow> bool option \<Rightarrow> (SignResult, sent) io" where
  "signTransaction transport confirm =
     io_bind (exchange transport TX_SIGN (Some (default_true confirm)) None) (\<lambda>result.
     io_pure (sum_bind (reader_hash result) (\<lambda>(h, rest).
              sum_bind (reader_uint16_t rest) (\<lambda>(n, rest').
              Inr \<lparr>sr_hash = h, sr_size = n\<rparr>))))"

text \<open>
  The \<^verbatim>\<open>while\<close> loop of \<^verbatim>\<open>retrieveTransaction\<close> (lines 731-740): every round
  that does not leave the loop makes the response longer, so it ends.
\<close>

function retrieve_loop :: "transport \<Rightarrow> int \<Rightarrow> byte list \<Rightarrow> sent \<Rightarrow> (error + byte list) \<times> sent" where
  "retrieve_loop transport mx response sent0 =
     (if int (length response) < mx then
        (case exchange transport TX_DUMP None
                (Some (writer_uint16_t (int (length response)))) sent0 of
           (Inl e, sent1) \<Rightarrow> (Inl e, sent1)
         | (Inr result, sent1) \<Rightarrow>
             if length result = 0 then (Inr response, sent1)
             else retrieve_loop transport mx (response @ result) sent1)
      else (Inr response, sent0))"
  by pat_completeness auto
termination
  by (relation "measure (\<lambda>(transport, mx, response, sent0). nat (mx - int (length response)))")
     auto

declare retrieve_loop.simps [simp del]

text \<open>
  A decoded transaction, as far as the builder reads it: the result of
  \<^verbatim>\<open>tx.hash()\<close> and \<^verbatim>\<open>tx.size\<close>, and the bytes it was decoded from. The
  decoder \<^verbatim>\<open>Transaction.from\<close> is outside this code: the parameter
  \<open>Transaction_from\<close>.
\<close>

record Transaction =
  tx_hash :: string
  tx_size :: int
  tx_blob :: "byte list"

definition retrieveTransaction ::
  "transport \<Rightarrow> Config \<Rightarrow> (byte list \<Rightarrow> error + Transaction) \<Rightarrow> (Transaction, sent) io" where
  "retrieveTransaction transport Config_json Transaction_from =
     io_bind (retrieve_loop transport (maximumLedgerTransactionSize Config_json) [])
       (\<lambda>response. io_pure (Transaction_from response))"

subsection \<open>The helper: data\<close>

record TransactionKeys =
  tk_publicKey :: string
  tk_derivedKey :: string
  tk_outputIndex :: int

record OutputInput =
  oi_publicEphemeral :: string
  oi_transactionKeys :: TransactionKeys
  oi_privateEphemeral :: "string option"

record Output =
  out_index :: int
  out_key :: string
  out_globalIndex :: int
  out_amount :: int
  out_input :: "OutputInput option"
  out_keyImage :: "string option"

record RandomOutput =
  ro_key :: string
  ro_globalIndex :: int

record PreparedInputOutputs =
  pio_key :: string
  pio_index :: int

record PreparedInput =
  pi_amount :: int
  realOutputIndex :: nat
  pi_keyImage :: string
  pi_input :: OutputInput
  pi_outputs :: "PreparedInputOutputs list"

record PreparedOutput =
  po_amount :: int
  po_key :: string

record PreparedOutputs =
  pos_transactionKeys :: KeyPair
  pos_outputs :: "PreparedOutput list"

record IKeyImage =
  ki_publicEphemeral :: string
  ki_keyImage :: string

definition NULL_KEY :: string where
  "NULL_KEY = replicate 64 (CHR ''0'')"

definition UINT64_MAX :: int where
  "UINT64_MAX = 2 ^ 64"

text \<open>\<^verbatim>\<open>UNUSED\<close> (lines 800-803): \<^verbatim>\<open>val || NULL_KEY\<close>.\<close>

definition UNUSED :: "string option \<Rightarrow> string" where
  "UNUSED val = (if truthy val then string_of val else NULL_KEY)"

subsection \<open>Preparing inputs\<close>

text \<open>
  \<^verbatim>\<open>prepareTransactionInputs\<close> (lines 806-892). \<open>mixin\<close> is a count and is
  modelled as a natural number. \<^verbatim>\<open>Array.prototype.sort\<close> is stable; with a
  comparator that compares one numeric key it is \<open>sort_key\<close>.
\<close>

fun mix_loop ::
  "nat \<Rightarrow> int \<Rightarrow> RandomOutput list \<Rightarrow> PreparedInputOutputs list \<Rightarrow> PreparedInputOutputs list" where
  "mix_loop mixin realGlobalIndex [] mixedOutputs = mixedOutputs"
| "mix_loop mixin realGlobalIndex (fakeOutput # rest) mixedOutputs =
     (if length mixedOutputs = mixin then mix_loop mixin realGlobalIndex rest mixedOutputs
      else if ro_globalIndex fakeOutput = realGlobalIndex
      then mix_loop mixin realGlobalIndex rest mixedOutputs
      else mix_loop mixin realGlobalIndex rest
             (mixedOutputs @ [\<lparr>pio_key = ro_key fakeOutput,
                                pio_index = ro_globalIndex fakeOutput\<rparr>]))"

text \<open>The loop of lines 882-886: the last position holding the real global index.\<close>

fun find_real :: "int \<Rightarrow> PreparedInputOutputs list \<Rightarrow> nat \<Rightarrow> nat \<Rightarrow> nat" where
  "find_real realGlobalIndex [] j found = found"
| "find_real realGlobalIndex (m # ms) j found =
     find_real realGlobalIndex ms (Suc j) (if pio_index m = realGlobalIndex then j else found)"

text \<open>One round of the loop of lines 822-889, for the real output and its decoys.\<close>

definition prepare_input :: "nat \<Rightarrow> Output \<Rightarrow> RandomOutput list \<Rightarrow> error + PreparedInput" where
  "prepare_input mixin realOutput fakeOutputs =
     (if \<not> truthy (out_keyImage realOutput) then Inl (Error ''input is missing its key image'')
      else case out_input realOutput of
        None \<Rightarrow> Inl (Error ''input is missing mandatory data fields'')
      | Some inp \<Rightarrow>
          if out_amount realOutput \<le> 0
          then Inl (RangeError ''Real inputs cannot have an amount <= 0'')
          else
            let mixedOutputs =
                  (if mixin \<noteq> 0
                   then mix_loop mixin (out_globalIndex realOutput)
                          (sort_key ro_globalIndex fakeOutputs) []
                   else [])
            in if mixin \<noteq> 0 \<and> length mixedOutputs < mixin
               then Inl (Error ''It is impossible to mix with yourself. Find some more random outputs and try again.'')
               else
                 let sorted_outputs =
                       sort_key pio_index
                         (mixedOutputs @ [\<lparr>pio_key = out_key realOutput,
                                            pio_index = out_globalIndex realOutput\<rparr>])
                 in Inr \<lparr>pi_amount = out_amount realOutput,
                         realOutputIndex =
                           find_real (out_globalIndex realOutput) sorted_outputs 0 0,
                         pi_keyImage = string_of (out_keyImage realOutput),
                         pi_input = inp,
                         pi_outputs = sorted_outputs\<rparr>)"

text \<open>
  The loop over \<open>i\<close>. \<^verbatim>\<open>randomOutputs[i]\<close> is read only when \<open>mixin\<close> is not 0,
  and then the two arrays have the same length (the check of line 810).
\<close>

fun prepare_loop ::
  "RandomOutput list list \<Rightarrow> nat \<Rightarrow> nat \<Rightarrow> Output list \<Rightarrow> PreparedInput list
     \<Rightarrow> error + PreparedInput list" where
  "prepare_loop randomOutputs mixin i [] mixedInputs = Inr mixedInputs"
| "prepare_loop randomOutputs mixin i (realOutput # rest) mixedInputs =
     sum_bind
       (prepare_input mixin realOutput (if mixin \<noteq> 0 then randomOutputs ! i else []))
       (\<lambda>inp. prepare_loop randomOutputs mixin (Suc i) rest (mixedInputs @ [inp]))"

definition prepareTransactionInputs ::
  "Output list \<Rightarrow> RandomOutput list list \<Rightarrow> nat \<Rightarrow> error + PreparedInput list" where
  "prepareTransactionInputs inputs randomOutputs mixin =
     (if length inputs \<noteq> length randomOutputs \<and> mixin \<noteq> 0
      then Inl (Error ''There are not enough random output sets to mix with the real outputs'')
      else if \<not> list_all (\<lambda>randomOutput. \<not> length randomOutput < mixin) randomOutputs
      then Inl (Error ''There are not enough random outputs to mix with'')
      else prepare_loop randomOutputs mixin 0 inputs [])"

subsection \<open>Preparing outputs\<close>

text \<open>
  The cryptography provider (\<^verbatim>\<open>TurtleCoinCrypto\<close>) is outside this code; its
  functions are fields of \<open>Crypto\<close> and may fail.
\<close>

record Crypto =
  generateKeyDerivation :: "string \<Rightarrow> string \<Rightarrow> error + string"
  derivePublicKey :: "string \<Rightarrow> int \<Rightarrow> string \<Rightarrow> error + string"
  cn_fast_hash :: "string \<Rightarrow> error + string"

definition prepareOutput ::
  "Crypto \<Rightarrow> Address \<Rightarrow> int \<Rightarrow> int \<Rightarrow> string \<Rightarrow> error + PreparedOutput" where
  "prepareOutput crypto dest amt idx privKey =
     sum_bind (generateKeyDerivation crypto (addr_view_publicKey dest) privKey)
       (\<lambda>outDerivation.
     sum_bind (derivePublicKey crypto outDerivation idx (addr_spend_publicKey dest))
       (\<lambda>outPublicEphemeral.
     Inr \<lparr>po_amount = amt, po_key = outPublicEphemeral\<rparr>))"

text \<open>
  \<^verbatim>\<open>Promise.all\<close> over the promises of the loop, taken in the order of the list: the
  results, or the first rejection.
\<close>

fun all_results :: "(error + 'a) list \<Rightarrow> error + 'a list" where
  "all_results [] = Inr []"
| "all_results (r # rs) =
     (case r of Inl e \<Rightarrow> Inl e
      | Inr x \<Rightarrow> (case all_results rs of Inl e \<Rightarrow> Inl e | Inr xs \<Rightarrow> Inr (x # xs)))"

text \<open>
  \<^verbatim>\<open>prepareTransactionOutputs\<close> (lines 895-937): sort by amount, throw at the first
  amount that is not positive, else await every prepared output.
\<close>

definition prepareTransactionOutputs ::
  "Crypto \<Rightarrow> KeyPair \<Rightarrow> GeneratedOutput list \<Rightarrow> error + PreparedOutputs" where
  "prepareTransactionOutputs crypto transactionKeys outs =
     (let sorted_outs = sort_key go_amount outs in
      if \<not> list_all (\<lambda>output. \<not> go_amount output \<le> 0) sorted_outs
      then Inl (RangeError ''Amount cannot be <= 0'')
      else sum_bind
             (all_results
                (map (\<lambda>(i, output).
                        prepareOutput crypto (go_destination output) (go_amount output)
                          (int i) (kp_privateKey transactionKeys))
                   (enumerate 0 sorted_outs)))
             (\<lambda>preparedOutputs.
                Inr \<lparr>pos_transactionKeys = transactionKeys, pos_outputs = preparedOutputs\<rparr>))"

subsection \<open>The helper: session, key images, scanning, signing\<close>

text \<open>
  The state of a \<^verbatim>\<open>LedgerNote\<close>: its device client (the requests sent so far) and
  the cached session. What the helper needs from outside is collected in \<open>Env\<close>: the
  transport, the cryptography provider, the address codec's \<^verbatim>\<open>fromPublicKeys\<close>, the
  transaction decoder, the module's configuration file, and the device client's
  \<^verbatim>\<open>generateKeyImagePrimitive\<close>, which the helper calls but which the device client
  of the sources does not have yet and is therefore a parameter.
\<close>

record LedgerNote =
  config :: Config
  m_ledger :: sent
  m_spend :: KeyPair
  m_view :: KeyPair
  m_address :: "Address option"
  m_fetched :: bool

record Env =
  env_transport :: transport
  env_crypto :: Crypto
  env_Config :: Config
  env_fromPublicKeys :: "string \<Rightarrow> string \<Rightarrow> error + Address"
  env_Transaction_from :: "byte list \<Rightarrow> error + Transaction"
  env_generateKeyImagePrimitive :: "string \<Rightarrow> int \<Rightarrow> string \<Rightarrow> (string, sent) io"

text \<open>A call of a device client method from the helper: \<^verbatim>\<open>this.m_ledger.f(...)\<close>.\<close>

definition on_ledger :: "('a, sent) io \<Rightarrow> ('a, LedgerNote) io" where
  "on_ledger m = (\<lambda>this. case m (m_ledger this) of (r, l) \<Rightarrow> (r, this\<lparr>m_ledger := l\<rparr>))"

definition io_get :: "('s, 's) io" where
  "io_get = (\<lambda>s. (Inr s, s))"

definition io_modify :: "('s \<Rightarrow> 's) \<Rightarrow> (unit, 's) io" where
  "io_modify f = (\<lambda>s. (Inr (), f s))"

text \<open>
  \<^verbatim>\<open>fetchKeys\<close> (lines 109-125). The device client of the sources returns the
  two public keys and the private view key as hex strings; the helper keeps them as the
  public keys of \<open>m_spend\<close> and \<open>m_view\<close> and as the private key of \<open>m_view\<close>.
  A failure part of the way leaves what was stored so far and \<open>m_fetched\<close> false.
\<close>

definition fetchKeys :: "Env \<Rightarrow> (unit, LedgerNote) io" where
  "fetchKeys env =
     io_bind (on_ledger (getPublicKeys (env_transport env) None)) (\<lambda>keys.
     io_bind (io_modify (\<lambda>this.
                this\<lparr>m_spend := \<lparr>kp_publicKey = pk_spend keys, kp_privateKey = []\<rparr>,
                     m_view := \<lparr>kp_publicKey = pk_view keys, kp_privateKey = []\<rparr>\<rparr>)) (\<lambda>u1.
     io_bind (on_ledger (getPrivateViewKey (env_transport env) None)) (\<lambda>view_private.
     io_bind (io_modify (\<lambda>this.
                this\<lparr>m_view := (m_view this)\<lparr>kp_privateKey := view_private\<rparr>\<rparr>)) (\<lambda>u2.
     io_bind (io_pure (env_fromPublicKeys env (pk_spend keys) (pk_view keys))) (\<lambda>addr.
     io_modify (\<lambda>this. this\<lparr>m_address := Some addr, m_fetched := True\<rparr>))))))"

text \<open>\<^verbatim>\<open>if (!this.ready) { await this.fetchKeys(); }\<close>\<close>

definition ensure_ready :: "Env \<Rightarrow> (unit, LedgerNote) io" where
  "ensure_ready env =
     io_bind io_get (\<lambda>this. if \<not> m_fetched this then fetchKeys env else io_return ())"

text \<open>\<^verbatim>\<open>generateKeyImagePrimitive\<close> (lines 204-225).\<close>

definition generateKeyImagePrimitive ::
  "Env \<Rightarrow> string option \<Rightarrow> string option \<Rightarrow> int \<Rightarrow> string \<Rightarrow> (IKeyImage, LedgerNote) io" where
  "generateKeyImagePrimitive env publicSpendKey privateSpendKey outputIndex derivation =
     io_bind (ensure_ready env) (\<lambda>u0.
     let u1 = UNUSED publicSpendKey; u2 = UNUSED privateSpendKey in
     io_bind io_get (\<lambda>this.
     io_bind (io_pure (derivePublicKey (env_crypto env) derivation outputIndex
                         (kp_publicKey (m_spend this)))) (\<lambda>publicEphemeral.
     io_bind (on_ledger (env_generateKeyImagePrimitive env derivation outputIndex
                           publicEphemeral)) (\<lambda>result.
     io_return \<lparr>ki_publicEphemeral = publicEphemeral, ki_keyImage = result\<rparr>))))"

text \<open>\<^verbatim>\<open>generateKeyImage\<close> (lines 175-193).\<close>

definition generateKeyImage ::
  "Env \<Rightarrow> string \<Rightarrow> string option \<Rightarrow> string option \<Rightarrow> string option \<Rightarrow> int
     \<Rightarrow> (IKeyImage, LedgerNote) io" where
  "generateKeyImage env transactionPublicKey privateViewKey publicSpendKey privateSpendKey
       outputIndex =
     io_bind (ensure_ready env) (\<lambda>u0.
     let u1 = UNUSED privateViewKey; u2 = UNUSED publicSpendKey; u3 = UNUSED privateSpendKey in
     io_bind io_get (\<lambda>this.
     io_bind (io_pure (generateKeyDerivation (env_crypto env) transactionPublicKey
                         (kp_privateKey (m_view this)))) (\<lambda>derivation.
     generateKeyImagePrimitive env None None outputIndex derivation)))"

text \<open>
  \<^verbatim>\<open>isOurTransactionOutput\<close> (lines 296-343). The source writes into the output
  object it was given and returns it; the model returns the updated output.
\<close>

definition isOurTransactionOutput ::
  "Env \<Rightarrow> string \<Rightarrow> Output \<Rightarrow> string option \<Rightarrow> string option \<Rightarrow> string option \<Rightarrow> bool
     \<Rightarrow> (Output, LedgerNote) io" where
  "isOurTransactionOutput env transactionPublicKey output privateViewKey publicSpendKey
       privateSpendKey generatePartial =
     io_bind (ensure_ready env) (\<lambda>u0.
     if generatePartial
     then io_throw (Error ''Generating partial key images is not supported'')
     else
     let u1 = UNUSED privateViewKey; u2 = UNUSED publicSpendKey; u3 = UNUSED privateSpendKey in
     io_bind io_get (\<lambda>this.
     io_bind (io_pure (generateKeyDerivation (env_crypto env) transactionPublicKey
                         (kp_privateKey (m_view this)))) (\<lambda>derivedKey.
     io_bind (io_pure (derivePublicKey (env_crypto env) derivedKey (out_index output)
                         (kp_publicKey (m_spend this)))) (\<lambda>publicEphemeral.
     if publicEphemeral = out_key output then
       io_bind (generateKeyImage env transactionPublicKey None None None (out_index output))
         (\<lambda>result.
       io_return
         (output\<lparr>out_input :=
                    Some \<lparr>oi_publicEphemeral = publicEphemeral,
                          oi_transactionKeys =
                            \<lparr>tk_publicKey = transactionPublicKey,
                             tk_derivedKey = derivedKey,
                             tk_outputIndex = out_index output\<rparr>,
                          oi_privateEphemeral = Some NULL_KEY\<rparr>,
                  out_keyImage := Some (ki_keyImage result)\<rparr>))
     else io_throw (Error ''Not our output'')))))"

text \<open>
  \<^verbatim>\<open>promise.catch(onRejected)\<close> is \<^verbatim>\<open>promise.then(undefined, onRejected)\<close>: with a
  handler the rejection is handled by it; without one (\<open>None\<close>, the call
  \<^verbatim>\<open>.catch()\<close> of line 267) the promise it returns is rejected as the original is.
\<close>

definition promise_catch ::
  "(error \<Rightarrow> ('a, 's) io) option \<Rightarrow> ('a, 's) io \<Rightarrow> ('a, 's) io" where
  "promise_catch onRejected promise =
     (case onRejected of
        None \<Rightarrow> promise
      | Some handler \<Rightarrow>
          (\<lambda>s. case promise s of (Inl e, s') \<Rightarrow> handler e s' | (Inr x, s') \<Rightarrow> (Inr x, s')))"

text \<open>
  \<^verbatim>\<open>Promise.all\<close> over calls that share the helper's state. The calls are run one
  after the other in the order of the list (their interleaving at the points of
  suspension is not modelled); every call runs, and the outcome is the list of the
  results or the first rejection.
\<close>

fun promise_all :: "('a, 's) io list \<Rightarrow> ('a list, 's) io" where
  "promise_all [] = io_return []"
| "promise_all (p # ps) =
     (\<lambda>s. case p s of
        (r, s') \<Rightarrow>
          (case promise_all ps s' of
             (rs, s'') \<Rightarrow>
               (case r of
                  Inl e \<Rightarrow> (Inl e, s'')
                | Inr x \<Rightarrow> (case rs of Inl e \<Rightarrow> (Inl e, s'') | Inr xs \<Rightarrow> (Inr (x # xs), s'')))))"

text \<open>
  \<^verbatim>\<open>scanTransactionOutputs\<close> (lines 249-282). A resolved call yields its output
  object, which is truthy, so the final loop keeps every result.
\<close>

definition scanTransactionOutputs ::
  "Env \<Rightarrow> string \<Rightarrow> Output list \<Rightarrow> string option \<Rightarrow> string option \<Rightarrow> string option \<Rightarrow> bool
     \<Rightarrow> (Output list, LedgerNote) io" where
  "scanTransactionOutputs env transactionPublicKey outs privateViewKey publicSpendKey
       privateSpendKey generatePartial =
     io_bind
       (promise_all
          (map (\<lambda>output.
                  promise_catch None
                    (isOurTransactionOutput env transactionPublicKey output privateViewKey
                       publicSpendKey privateSpendKey generatePartial))
             outs))
       (\<lambda>results. io_return (foldl (\<lambda>ourOutputs result. ourOutputs @ [result]) [] results))"

text \<open>
  \<^verbatim>\<open>signMessage\<close> (lines 464-476). A message that is not a string is given by its
  \<^verbatim>\<open>JSON.stringify\<close> text. \<^verbatim>\<open>Buffer.from(message).toString('hex')\<close> is the hex
  rendering of the bytes of the string.
\<close>

datatype message = StringMessage string | JsonMessage string

definition message_text :: "message \<Rightarrow> string" where
  "message_text m = (case m of StringMessage t \<Rightarrow> t | JsonMessage t \<Rightarrow> t)"

definition signMessage :: "Env \<Rightarrow> message \<Rightarrow> string option \<Rightarrow> (string, LedgerNote) io" where
  "signMessage env msg privateKey =
     (let u1 = UNUSED privateKey;
          hex = bytes_to_hex (map (\<lambda>c. word_of_nat (of_char c)) (message_text msg))
      in io_bind (io_pure (cn_fast_hash (env_crypto env) hex)) (\<lambda>hash.
         on_ledger (generateSignature (env_transport env) hash None)))"

subsection \<open>The transaction builder\<close>

text \<open>The loop of lines 547-567; the empty string is the undefined payment id.\<close>

fun check_outputs ::
  "int \<Rightarrow> GeneratedOutput list \<Rightarrow> int \<Rightarrow> string \<Rightarrow> error + (int \<times> string)" where
  "check_outputs mx [] neededMoney integratedPaymentId = Inr (neededMoney, integratedPaymentId)"
| "check_outputs mx (output # rest) neededMoney integratedPaymentId =
     (if go_amount output \<le> 0
      then Inl (RangeError ''Cannot create an output with an amount <= 0'')
      else if go_amount output > mx then Inl (OutputAmountTooLarge mx)
      else
        let neededMoney' = neededMoney + go_amount output in
        if neededMoney' > UINT64_MAX
        then Inl (RangeError ''Total output amount exceeds UINT64_MAX'')
        else if addr_paymentId (go_destination output) \<noteq> [] then
          (if integratedPaymentId = []
           then check_outputs mx rest neededMoney' (addr_paymentId (go_destination output))
           else if integratedPaymentId \<noteq> addr_paymentId (go_destination output)
           then Inl (Error ''Cannot perform multiple transfers with differing integrated addresses'')
           else check_outputs mx rest neededMoney' integratedPaymentId)
        else check_outputs mx rest neededMoney' integratedPaymentId)"

text \<open>The loop of lines 578-586.\<close>

fun check_inputs :: "Output list \<Rightarrow> int \<Rightarrow> error + int" where
  "check_inputs [] foundMoney = Inr foundMoney"
| "check_inputs (inp # rest) foundMoney =
     (if out_amount inp \<le> 0 then Inl (RangeError ''Cannot spend outputs with an amount <= 0'')
      else
        let foundMoney' = foundMoney + out_amount inp in
        if foundMoney' > UINT64_MAX
        then Inl (RangeError ''Total input amount exceeds UINT64_MAX'')
        else check_inputs rest foundMoney')"

text \<open>
  \<^verbatim>\<open>(n / m) < ratio\<close> on the lengths of two arrays: a division by zero gives
  \<^verbatim>\<open>Infinity\<close> or \<^verbatim>\<open>NaN\<close>, neither of which is below the ratio.
\<close>

definition ratio_below :: "nat \<Rightarrow> nat \<Rightarrow> rat \<Rightarrow> bool" where
  "ratio_below n m ratio = (if m = 0 then False else of_nat n / of_nat m < ratio)"

text \<open>Lines 610-620: the checks on a transaction with no fee.\<close>

definition fusionCheck :: "Config \<Rightarrow> Config \<Rightarrow> int \<Rightarrow> nat \<Rightarrow> nat \<Rightarrow> error + unit" where
  "fusionCheck this_config Config_json feeAmount n_inputs n_outputs =
     (if feeAmount = 0 then
        (if n_inputs < 12
         then Inl (FusionMinInputs
                     (js_or (fusionMinInputCount this_config) (fusionMinInputCount Config_json)))
         else
           let ratio = js_or (fusionMinInOutCountRatio this_config)
                             (fusionMinInOutCountRatio Config_json)
           in if ratio_below n_inputs n_outputs ratio
              then Inl (Error ''Sending a [0] fee transaction (fusion) requires the correct input:output ratio be met'')
              else Inr ())
      else Inr ())"

text \<open>
  \<^verbatim>\<open>BigInteger(text, 16)\<close> of the \<^verbatim>\<open>big-integer\<close> package: an optional leading
  minus sign, then hexadecimal digits of either case; any other character throws.
\<close>

definition BigInteger16 :: "string \<Rightarrow> error + int" where
  "BigInteger16 t =
     (let isNegative = (case t of [] \<Rightarrow> False | c # cs \<Rightarrow> c = CHR ''-'');
          digits = (if isNegative then tl t else t)
      in if list_all is_hex_char digits
         then Inr ((if isNegative then - 1 else 1)
                   * int (foldl (\<lambda>acc c. acc * 16 + hex_val c) 0 digits))
         else Inl (External ''not a valid digit in base 16''))"

definition keyImage_value :: "PreparedInput \<Rightarrow> int" where
  "keyImage_value p = (case BigInteger16 (pi_keyImage p) of Inl e \<Rightarrow> 0 | Inr v \<Rightarrow> v)"

text \<open>
  Lines 622-624: the sort by key image, descending. The comparator is called on
  every element as soon as there are two, so a key image that does not parse makes the
  sort throw; otherwise the stable sort by the negated value.
\<close>

definition sort_by_keyImage :: "PreparedInput list \<Rightarrow> error + PreparedInput list" where
  "sort_by_keyImage transactionInputs =
     (if length transactionInputs < 2 then Inr transactionInputs
      else sum_bind (all_results (map (\<lambda>p. BigInteger16 (pi_keyImage p)) transactionInputs))
             (\<lambda>vs. Inr (sort_key (\<lambda>p. - keyImage_value p) transactionInputs)))"

text \<open>\<^verbatim>\<open>if (await this.m_ledger.transactionState() !== expected) throw new Error(m)\<close>\<close>

definition expect_state :: "transport \<Rightarrow> TransactionState \<Rightarrow> string \<Rightarrow> (unit, sent) io" where
  "expect_state transport expected m =
     io_bind (transactionState transport) (\<lambda>v.
     if v \<noteq> TransactionState_code expected then io_throw (Error m) else io_return ())"

text \<open>The loop of lines 644-658.\<close>

fun load_inputs :: "transport \<Rightarrow> Config \<Rightarrow> PreparedInput list \<Rightarrow> (unit, sent) io" where
  "load_inputs transport Config_json [] = io_return ()"
| "load_inputs transport Config_json (inp # rest) =
     io_bind
       (loadTransactionInput transport Config_json
          (tk_publicKey (oi_transactionKeys (pi_input inp)))
          (tk_outputIndex (oi_transactionKeys (pi_input inp)))
          (pi_amount inp)
          (map pio_key (pi_outputs inp))
          (map toJSNumber (Common_absoluteToRelativeOffsets (map pio_index (pi_outputs inp))))
          (int (realOutputIndex inp)))
       (\<lambda>u. load_inputs transport Config_json rest)"

text \<open>The loop of lines 670-672.\<close>

fun load_outputs :: "transport \<Rightarrow> Config \<Rightarrow> PreparedOutput list \<Rightarrow> (unit, sent) io" where
  "load_outputs transport Config_json [] = io_return ()"
| "load_outputs transport Config_json (output # rest) =
     io_bind (loadTransactionOutput transport Config_json (po_amount output) (po_key output))
       (\<lambda>u. load_outputs transport Config_json rest)"

text \<open>The body of the \<^verbatim>\<open>try\<close> block (lines 627-700).\<close>

definition createTransaction_try ::
  "Env \<Rightarrow> int \<Rightarrow> PreparedInput list \<Rightarrow> PreparedOutputs \<Rightarrow> KeyPair \<Rightarrow> string option
     \<Rightarrow> (Transaction, sent) io" where
  "createTransaction_try env unlockTime transactionInputs transactionOutputs tx_keys paymentId =
     (let transport = env_transport env in
      io_bind (startTransaction transport unlockTime (int (length transactionInputs))
                 (int (length (pos_outputs transactionOutputs))) (kp_publicKey tx_keys)
                 (if truthy paymentId then paymentId else None)) (\<lambda>u1.
      io_bind (expect_state transport READY
                 ''Ledger transaction construction not ready.'') (\<lambda>u2.
      io_bind (startTransactionInputLoad transport) (\<lambda>u3.
      io_bind (expect_state transport RECEIVING_INPUTS
                 ''Ledger is not ready to receive inputs.'') (\<lambda>u4.
      io_bind (load_inputs transport (env_Config env) transactionInputs) (\<lambda>u5.
      io_bind (expect_state transport INPUTS_RECEIVED
                 ''Ledger did not receive all required inputs.'') (\<lambda>u6.
      io_bind (startTransactionOutputLoad transport) (\<lambda>u7.
      io_bind (expect_state transport RECEIVING_OUTPUTS
                 ''Ledger is not ready to receive outputs.'') (\<lambda>u8.
      io_bind (load_outputs transport (env_Config env) (pos_outputs transactionOutputs)) (\<lambda>u9.
      io_bind (expect_state transport OUTPUTS_RECEIVED
                 ''Ledger did not receive all required outputs.'') (\<lambda>u10.
      io_bind (finalizeTransactionPrefix transport) (\<lambda>u11.
      io_bind (expect_state transport PREFIX_READY
                 ''Ledger did not properly finalize the transaction prefix.'') (\<lambda>u12.
      io_bind (signTransaction transport None) (\<lambda>result.
      io_bind (expect_state transport COMPLETE
                 ''Ledger did not properly complete the transaction.'') (\<lambda>u13.
      io_bind (retrieveTransaction transport (env_Config env) (env_Transaction_from env)) (\<lambda>tx.
      if tx_hash tx \<noteq> sr_hash result then io_throw (Error ''Transaction hash mismatch'')
      else if tx_size tx \<noteq> sr_size result then io_throw (Error ''Transaction size mismatch'')
      else io_return tx))))))))))))))))"

text \<open>
  \<^verbatim>\<open>createTransaction\<close> (lines 512-704). \<open>None\<close> is an argument left
  \<^verbatim>\<open>undefined\<close>.
\<close>

definition createTransaction ::
  "Env \<Rightarrow> GeneratedOutput list \<Rightarrow> Output list \<Rightarrow> RandomOutput list list \<Rightarrow> nat \<Rightarrow> int option
     \<Rightarrow> string option \<Rightarrow> int option \<Rightarrow> string option \<Rightarrow> (Transaction, LedgerNote) io" where
  "createTransaction env outs inputs randomOutputs mixin feeAmount0 paymentId unlockTime0
       extraData =
     io_bind io_get (\<lambda>this.
     if truthy extraData
     then io_throw (Error ''Supplying extra transaction data is not supported'')
     else
     let feeAmount =
           (case feeAmount0 of
              None \<Rightarrow> js_or (defaultNetworkFee (config this)) (defaultNetworkFee (env_Config env))
            | Some f \<Rightarrow> f);
         unlockTime = (case unlockTime0 of None \<Rightarrow> 0 | Some u \<Rightarrow> u);
         feePerByte = (activateFeePerByteTransactions (config this)
                       \<or> activateFeePerByteTransactions (env_Config env));
         mx = js_or (maximumOutputAmount (config this)) (maximumOutputAmount (env_Config env))
     in
     if length randomOutputs \<noteq> length inputs \<and> mixin \<noteq> 0
     then io_throw (Error ''The sets of random outputs supplied does not match the number of inputs supplied'')
     else if \<not> list_all (\<lambda>randomOutput. \<not> length randomOutput < mixin) randomOutputs
     then io_throw (Error ''There are not enough random outputs to mix with'')
     else
     io_bind (io_pure (check_outputs mx outs 0 [])) (\<lambda>(neededMoney, integratedPaymentId).
     if integratedPaymentId \<noteq> [] \<and> truthy paymentId
        \<and> integratedPaymentId \<noteq> string_of paymentId
     then io_throw (Error ''Transfer destinations contains an integrated payment ID that does not match the paymentID supplied to this method'')
     else
     io_bind (io_pure (check_inputs inputs 0)) (\<lambda>foundMoney.
     if neededMoney > foundMoney
     then io_throw (Error ''We need more funds than was currently supplied for the transaction'')
     else
     let change = foundMoney - neededMoney in
     if \<not> feePerByte \<and> feeAmount \<noteq> 0 \<and> change < feeAmount
     then io_throw (Error ''We have not spent all of what we sent in'')
     else
     io_bind (io_pure (prepareTransactionInputs inputs randomOutputs mixin))
       (\<lambda>transactionInputs.
     io_bind (on_ledger (getRandomKeyPair (env_transport env))) (\<lambda>tx_keys.
     io_bind (io_pure (prepareTransactionOutputs (env_crypto env) tx_keys outs))
       (\<lambda>transactionOutputs.
     if int (length (pos_outputs transactionOutputs))
          > js_or (maximumOutputsPerTransaction (config this))
                  (maximumOutputsPerTransaction (env_Config env))
     then io_throw (RangeError ''Tried to create a transaction with more outputs than permitted'')
     else
     io_bind (io_pure (fusionCheck (config this) (env_Config env) feeAmount
                         (length transactionInputs)
                         (length (pos_outputs transactionOutputs)))) (\<lambda>u.
     io_bind (io_pure (sort_by_keyImage transactionInputs)) (\<lambda>sortedInputs.
     on_ledger
       (io_finally
          (createTransaction_try env unlockTime sortedInputs transactionOutputs tx_keys
             paymentId)
          (resetTransaction (env_transport env) None))))))))))"

text \<open>
  The part of \<^verbatim>\<open>createTransaction\<close> that runs before the \<^verbatim>\<open>try\<close> block
  (lines 522-624): the same checks and calls, in the same order, up to and including
  the sort of the prepared inputs. It returns what the \<^verbatim>\<open>try\<close> block reads: the
  unlock time, the sorted inputs, the prepared outputs and the transaction keys.
\<close>

definition createTransaction_before_try ::
  "Env \<Rightarrow> GeneratedOutput list \<Rightarrow> Output list \<Rightarrow> RandomOutput list list \<Rightarrow> nat \<Rightarrow> int option
     \<Rightarrow> string option \<Rightarrow> int option \<Rightarrow> string option
     \<Rightarrow> (int \<times> PreparedInput list \<times> PreparedOutputs \<times> KeyPair, LedgerNote) io" where
  "createTransaction_before_try env outs inputs randomOutputs mixin feeAmount0 paymentId
       unlockTime0 extraData =
     io_bind io_get (\<lambda>this.
     if truthy extraData
     then io_throw (Error ''Supplying extra transaction data is not supported'')
     else
     let feeAmount =
           (case feeAmount0 of
              None \<Rightarrow> js_or (defaultNetworkFee (config this)) (defaultNetworkFee (env_Config env))
            | Some f \<Rightarrow> f);
         unlockTime = (case unlockTime0 of None \<Rightarrow> 0 | Some u \<Rightarrow> u);
         feePerByte = (activateFeePerByteTransactions (config this)
                       \<or> activateFeePerByteTransactions (env_Config env));
         mx = js_or (maximumOutputAmount (config this)) (maximumOutputAmount (env_Config env))
     in
     if length randomOutputs \<noteq> length inputs \<and> mixin \<noteq> 0
     then io_throw (Error ''The sets of random outputs supplied does not match the number of inputs supplied'')
     else if \<not> list_all (\<lambda>randomOutput. \<not> length randomOutput < mixin) randomOutputs
     then io_throw (Error ''There are not enough random outputs to mix with'')
     else
     io_bind (io_pure (check_outputs mx outs 0 [])) (\<lambda>(neededMoney, integratedPaymentId).
     if integratedPaymentId \<noteq> [] \<and> truthy paymentId
        \<and> integratedPaymentId \<noteq> string_of paymentId
     then io_throw (Error ''Transfer destinations contains an integrated payment ID that does not match the paymentID supplied to this method'')
     else
     io_bind (io_pure (check_inputs inputs 0)) (\<lambda>foundMoney.
     if neededMoney > foundMoney
     then io_throw (Error ''We need more funds than was currently supplied for the transaction'')
     else
     let change = foundMoney - neededMoney in
     if \<not> feePerByte \<and> feeAmount \<noteq> 0 \<and> change < feeAmount
     then io_throw (Error ''We have not spent all of what we sent in'')
     else
     io_bind (io_pure (prepareTransactionInputs inputs randomOutputs mixin))
       (\<lambda>transactionInputs.
     io_bind (on_ledger (getRandomKeyPair (env_transport env))) (\<lambda>tx_keys.
     io_bind (io_pure (prepareTransactionOutputs (env_crypto env) tx_keys outs))
       (\<lambda>transactionOutputs.
     if int (length (pos_outputs transactionOutputs))
          > js_or (maximumOutputsPerTransaction (config this))
                  (maximumOutputsPerTransaction (env_Config env))
     then io_throw (RangeError ''Tried to create a transaction with more outputs than permitted'')
     else
     io_bind (io_pure (fusionCheck (config this) (env_Config env) feeAmount
                         (length transactionInputs)
                         (length (pos_outputs transactionOutputs)))) (\<lambda>u.
     io_bind (io_pure (sort_by_keyImage transactionInputs)) (\<lambda>sortedInputs.
     io_return (unlockTime, sortedInputs, transactionOutputs, tx_keys)))))))))"

subsection \<open>Computations that only send\<close>

text \<open>
  \<open>appends m\<close>: whatever the list of requests sent before, after \<open>m\<close> it is that
  list with further requests at its end.
\<close>

definition appends :: "('a, sent) io \<Rightarrow> bool" where
  "appends m = (\<forall>s. \<exists>ext. snd (m s) = s @ ext)"

subsection \<open>A scripted device and concrete inputs\<close>

text \<open>
  Concrete values on which the properties below are run. The scripted transport
  answers \<open>RANDOM_KEY_PAIR\<close> with two keys, the \<open>k\<close>-th \<open>TX_STATE\<close> with the state
  \<open>k\<close>, \<open>TX_SIGN\<close> with a hash and the size 3, \<open>TX_DUMP\<close> at offset 0 with three
  bytes and at any other offset with none, and every other request with the bare
  status \<open>0x9000\<close>.
\<close>

definition example_key :: "char \<Rightarrow> string" where
  "example_key c = [c,c,c,c,c,c,c,c, c,c,c,c,c,c,c,c, c,c,c,c,c,c,c,c, c,c,c,c,c,c,c,c,
                    c,c,c,c,c,c,c,c, c,c,c,c,c,c,c,c, c,c,c,c,c,c,c,c, c,c,c,c,c,c,c,c]"

definition example_bytes32 :: "byte \<Rightarrow> byte list" where
  "example_bytes32 b = [b,b,b,b,b,b,b,b, b,b,b,b,b,b,b,b, b,b,b,b,b,b,b,b, b,b,b,b,b,b,b,b]"

definition example_transport :: transport where
  "example_transport h =
     (case rev h of
        [] \<Rightarrow> Inl (External ''no request'')
      | request # earlier \<Rightarrow>
          let ins = request ! 1 in
          if ins = 25 then Inr (example_bytes32 17 @ example_bytes32 18 @ [144, 0])
          else if ins = 112
          then Inr [word_of_nat (length (filter (\<lambda>r. r ! 1 = 112) h)), 144, 0]
          else if ins = 119 then Inr (example_bytes32 34 @ [0, 3, 144, 0])
          else if ins = 120
          then (if request ! 6 = 0 \<and> request ! 7 = 0 then Inr [1, 2, 3, 144, 0]
                else Inr [144, 0])
          else Inr [144, 0])"

definition example_crypto :: Crypto where
  "example_crypto =
     \<lparr>generateKeyDerivation = (\<lambda>pub priv. Inr (example_key (CHR ''d''))),
      derivePublicKey = (\<lambda>derivation idx pub. Inr (example_key (CHR ''e''))),
      cn_fast_hash = (\<lambda>hex. Inr (example_key (CHR ''c'')))\<rparr>"

definition example_Config :: Config where
  "example_Config =
     \<lparr>defaultNetworkFee = 10, fusionMinInputCount = 20, fusionMinInOutCountRatio = 4,
      maximumOutputAmount = 100000, maximumOutputsPerTransaction = 90,
      activateFeePerByteTransactions = False, maximumLedgerTransactionSize = 1000\<rparr>"

definition example_env :: Env where
  "example_env =
     \<lparr>env_transport = example_transport, env_crypto = example_crypto,
      env_Config = example_Config,
      env_fromPublicKeys = (\<lambda>s v. Inr \<lparr>addr_paymentId = [], addr_spend_publicKey = s,
                                        addr_view_publicKey = v\<rparr>),
      env_Transaction_from = (\<lambda>bs. Inr \<lparr>tx_hash = example_key (CHR ''2''),
                                          tx_size = int (length bs), tx_blob = bs\<rparr>),
      env_generateKeyImagePrimitive = (\<lambda>derivation idx pub. io_return (example_key (CHR ''f'')))\<rparr>"

definition example_note :: LedgerNote where
  "example_note =
     \<lparr>config = example_Config, m_ledger = [],
      m_spend = \<lparr>kp_publicKey = [], kp_privateKey = []\<rparr>,
      m_view = \<lparr>kp_publicKey = [], kp_privateKey = []\<rparr>,
      m_address = None, m_fetched = False\<rparr>"

definition example_input :: "string \<Rightarrow> Output" where
  "example_input ki =
     \<lparr>out_index = 0, out_key = example_key (CHR ''a''), out_globalIndex = 7, out_amount = 100,
      out_input = Some \<lparr>oi_publicEphemeral = example_key (CHR ''a''),
                        oi_transactionKeys = \<lparr>tk_publicKey = example_key (CHR ''b''),
                                              tk_derivedKey = example_key (CHR ''d''),
                                              tk_outputIndex = 0\<rparr>,
                        oi_privateEphemeral = None\<rparr>,
      out_keyImage = Some ki\<rparr>"

definition example_decoys :: "RandomOutput list" where
  "example_decoys =
     [\<lparr>ro_key = example_key (CHR ''9''), ro_globalIndex = 9\<rparr>,
      \<lparr>ro_key = example_key (CHR ''3''), ro_globalIndex = 3\<rparr>,
      \<lparr>ro_key = example_key (CHR ''5''), ro_globalIndex = 5\<rparr>]"

definition example_prepared :: "string \<Rightarrow> PreparedInput" where
  "example_prepared ki =
     \<lparr>pi_amount = 100, realOutputIndex = 2, pi_keyImage = ki,
      pi_input = \<lparr>oi_publicEphemeral = example_key (CHR ''a''),
                   oi_transactionKeys = \<lparr>tk_publicKey = example_key (CHR ''b''),
                                         tk_derivedKey = example_key (CHR ''d''),
                                         tk_outputIndex = 0\<rparr>,
                   oi_privateEphemeral = None\<rparr>,
      pi_outputs = [\<lparr>pio_key = example_key (CHR ''3''), pio_index = 3\<rparr>,
                    \<lparr>pio_key = example_key (CHR ''5''), pio_index = 5\<rparr>,
                    \<lparr>pio_key = example_key (CHR ''a''), pio_index = 7\<rparr>,
                    \<lparr>pio_key = example_key (CHR ''9''), pio_index = 9\<rparr>]\<rparr>"

text \<open>Decoys of which two have the same global index.\<close>

definition example_decoys_twice :: "RandomOutput list" where
  "example_decoys_twice =
     [\<lparr>ro_key = example_key (CHR ''9''), ro_globalIndex = 9\<rparr>,
      \<lparr>ro_key = example_key (CHR ''3''), ro_globalIndex = 5\<rparr>,
      \<lparr>ro_key = example_key (CHR ''5''), ro_globalIndex = 5\<rparr>]"

definition example_output :: GeneratedOutput where
  "example_output =
     \<lparr>go_amount = 90,
      go_destination = \<lparr>addr_paymentId = [], addr_spend_publicKey = example_key (CHR ''a''),
                         addr_view_publicKey = example_key (CHR ''b'')\<rparr>\<rparr>"

section \<open>Properties\<close>

lemmas io_defs = io_bind_def io_pure_def io_throw_def io_return_def io_get_def io_modify_def

subsection \<open>Offsets\<close>

lemma push_each:
  "foldl (\<lambda>result offset. result @ [toJSNumber offset]) acc xs = acc @ map toJSNumber xs"
  by (induction xs arbitrary: acc) simp_all

lemma absolute_from_relative_from: "absolute_from p (relative_from p as) = as"
  by (induction as arbitrary: p) simp_all

lemma toJSNumber_safe: "\<bar>b\<bar> \<le> 9007199254740992 \<Longrightarrow> toJSNumber b = b"
  by (simp add: toJSNumber_def)

lemma map_toJSNumber_safe:
  "\<forall>x \<in> set xs. \<bar>x\<bar> \<le> 9007199254740992 \<Longrightarrow> map toJSNumber xs = xs"
  by (induction xs) (simp_all add: toJSNumber_safe)

lemma relative_from_safe:
  assumes "0 \<le> p" "p \<le> 9007199254740992"
    and "\<forall>x \<in> set as. 0 \<le> x \<and> x \<le> 9007199254740992"
  shows "\<forall>x \<in> set (relative_from p as). \<bar>x\<bar> \<le> 9007199254740992"
  using assms
proof (induction as arbitrary: p)
  case Nil
  then show ?case by simp
next
  case (Cons a as)
  from Cons.prems have a: "0 \<le> a" "a \<le> 9007199254740992" by simp_all
  from Cons.prems have rest: "\<forall>x \<in> set as. 0 \<le> x \<and> x \<le> 9007199254740992" by simp
  have "\<bar>a - p\<bar> \<le> 9007199254740992" using a Cons.prems(1,2) by simp
  with Cons.IH [OF a rest] show ?case by simp
qed

text \<open>
  Claim C9, as amended. For every list of absolute offsets that are safe integers
  (from 0 to \<open>2^53\<close>), ascending or not, converting to relative offsets (first element
  unchanged, every later element the difference from its predecessor) and back (prefix
  sums) gives the list back: on such a list no conversion to a JavaScript number
  rounds.
\<close>

theorem offsets_round_trip:
  assumes "\<forall>x \<in> set a. 0 \<le> x \<and> x \<le> 9007199254740992"
  shows "relativeToAbsoluteOffsets (absoluteToRelativeOffsets a) = a"
proof (cases a)
  case Nil
  then show ?thesis
    by (simp add: relativeToAbsoluteOffsets_def absoluteToRelativeOffsets_def
          Common_relativeToAbsoluteOffsets_def Common_absoluteToRelativeOffsets_def)
next
  case (Cons x xs)
  from assms Cons have x: "0 \<le> x" "x \<le> 9007199254740992"
    and xs: "\<forall>y \<in> set xs. 0 \<le> y \<and> y \<le> 9007199254740992"
    by simp_all
  from relative_from_safe [OF x xs] x
  have "\<forall>y \<in> set (x # relative_from x xs). \<bar>y\<bar> \<le> 9007199254740992" by simp
  then have "map toJSNumber (x # relative_from x xs) = x # relative_from x xs"
    by (rule map_toJSNumber_safe)
  then have rel: "absoluteToRelativeOffsets (x # xs) = x # relative_from x xs"
    by (simp only: absoluteToRelativeOffsets_def push_each Common_absoluteToRelativeOffsets_def
          list.case append_Nil)
  have "\<forall>y \<in> set (x # xs). \<bar>y\<bar> \<le> 9007199254740992" using x xs by auto
  then have "map toJSNumber (x # xs) = x # xs" by (rule map_toJSNumber_safe)
  then have "relativeToAbsoluteOffsets (absoluteToRelativeOffsets (x # xs)) = x # xs"
    by (simp only: rel relativeToAbsoluteOffsets_def push_each
          Common_relativeToAbsoluteOffsets_def list.case append_Nil
          absolute_from_relative_from)
  with Cons show ?thesis by simp
qed

theorem offsets_round_trip_witness:
  "relativeToAbsoluteOffsets (absoluteToRelativeOffsets [5, 9, 14, 14, 20]) = [5, 9, 14, 14, 20]"
proof -
  have "\<forall>x \<in> set [5, 9, 14, 14, 20 :: int]. 0 \<le> x \<and> x \<le> 9007199254740992" by simp
  from offsets_round_trip [OF this] show ?thesis .
qed

text \<open>
  The claim as stated fails beyond \<open>2^53\<close>. The one-element list holding
  \<open>2^53 + 1\<close> is ascending; its offset becomes the JavaScript number \<open>2^53\<close> on the
  way out of \<open>absoluteToRelativeOffsets\<close>, and that is what comes back.
\<close>

theorem offsets_round_trip_rounds:
  "sorted [9007199254740993 :: int]
   \<and> relativeToAbsoluteOffsets (absoluteToRelativeOffsets [9007199254740993])
       = [9007199254740992]
   \<and> relativeToAbsoluteOffsets (absoluteToRelativeOffsets [9007199254740993])
       \<noteq> [9007199254740993]"
proof -
  have bits: "bit_length 9007199254740993 = 54"
    by (simp add: bit_length.simps)
  have "toJSNumber 9007199254740993 = 9007199254740992"
    by (simp add: toJSNumber_def bits Let_def)
  moreover have "toJSNumber 9007199254740992 = 9007199254740992"
    by (simp add: toJSNumber_def)
  ultimately show ?thesis
    by (simp add: relativeToAbsoluteOffsets_def absoluteToRelativeOffsets_def
          Common_relativeToAbsoluteOffsets_def Common_absoluteToRelativeOffsets_def)
qed

subsection \<open>The request of an exchange\<close>

lemma snd_exchange_Some:
  "length d \<le> 506 \<Longrightarrow>
   snd (exchange transport command confirm (Some d) sent0) =
     sent0 @ [[224, word_of_int (CMD_code command), (if default_true confirm then 1 else 0), 0,
               word_of_int (int (length d) div 256), word_of_int (int (length d))] @ d]"
  by (simp add: exchange_def exchange_request_def io_bind_def io_pure_def transport_exchange_def
        writer_uint8_t_def writer_uint16_t_def APDU_INS_def APDU_P1_CONFIRM_def
        APDU_P1_NON_CONFIRM_def APDU_P2_def split: prod.splits sum.splits)

lemma snd_exchange_None:
  "snd (exchange transport command confirm None sent0) =
     sent0 @ [[224, word_of_int (CMD_code command), (if default_true confirm then 1 else 0), 0, 0, 0]]"
  by (simp add: exchange_def exchange_request_def io_bind_def io_pure_def transport_exchange_def
        writer_uint8_t_def writer_uint16_t_def APDU_INS_def APDU_P1_CONFIRM_def
        APDU_P1_NON_CONFIRM_def APDU_P2_def split: prod.splits sum.splits)

lemma exchange_too_large:
  "length d > 506 \<Longrightarrow>
   exchange transport command confirm (Some d) sent0 =
     (Inl (Error ''Data payload exceeds maximum size''), sent0)"
  by (simp add: exchange_def exchange_request_def io_bind_def io_pure_def)

lemma uint_CMD_code: "uint (word_of_int (CMD_code c) :: byte) = CMD_code c"
  by (cases c) simp_all

lemma u16be_length:
  assumes "n \<le> 506"
  shows "unat (word_of_int (int n div 256) :: byte) * 256 + unat (word_of_int (int n) :: byte) = n"
proof -
  have a: "unat (word_of_int (int n) :: byte) = n mod 256"
    by (simp add: unat_of_nat)
  have "int n div 256 = int (n div 256)" by simp
  then have b: "unat (word_of_int (int n div 256) :: byte) = (n div 256) mod 256"
    by (simp add: unat_of_nat del: of_nat_div)
  have "n div 256 < 256" using assms by simp
  then show ?thesis using a b by simp
qed

text \<open>
  Claim C4. The request handed to the transport is the class byte \<open>0xE0\<close>, the
  command's byte, P1 (1 when confirmation is requested or left to its default, else 0),
  P2 = 0, the length of the data as two bytes, most significant first, and the data;
  with no data the length is 0. A payload longer than \<open>512 - 6\<close> bytes is rejected
  with an error and the list of requests sent is unchanged.
\<close>

theorem exchange_request_framing:
  "(length d \<le> 512 - 6 \<longrightarrow>
      snd (exchange transport command confirm (Some d) sent0)
        = sent0 @ [[224, word_of_int (CMD_code command), (if default_true confirm then 1 else 0), 0,
                    word_of_nat (length d div 256), word_of_nat (length d mod 256)] @ d]
      \<and> unat (word_of_nat (length d div 256) :: byte) * 256
          + unat (word_of_nat (length d mod 256) :: byte) = length d)
   \<and> snd (exchange transport command confirm None sent0)
        = sent0 @ [[224, word_of_int (CMD_code command), (if default_true confirm then 1 else 0),
                    0, 0, 0]]
   \<and> uint (word_of_int (CMD_code command) :: byte) = CMD_code command
   \<and> (length d > 512 - 6 \<longrightarrow>
         exchange transport command confirm (Some d) sent0
           = (Inl (Error ''Data payload exceeds maximum size''), sent0))"
proof (intro conjI impI)
  assume len: "length d \<le> 512 - 6"
  then have le: "length d \<le> 506" by simp
  have hi: "(word_of_int (int (length d) div 256) :: byte) = word_of_nat (length d div 256)"
    by (metis of_int_of_nat_eq of_nat_numeral zdiv_int)
  have lo: "(word_of_int (int (length d)) :: byte) = word_of_nat (length d mod 256)"
    by (simp add: word_eq_iff_unsigned [where ?'a = nat] unat_of_nat)
  show "snd (exchange transport command confirm (Some d) sent0)
        = sent0 @ [[224, word_of_int (CMD_code command), (if default_true confirm then 1 else 0), 0,
                    word_of_nat (length d div 256), word_of_nat (length d mod 256)] @ d]"
    using snd_exchange_Some [OF le, of transport command confirm sent0] hi lo by simp
  show "unat (word_of_nat (length d div 256) :: byte) * 256
          + unat (word_of_nat (length d mod 256) :: byte) = length d"
    using u16be_length [OF le] hi lo by simp
next
  show "snd (exchange transport command confirm None sent0)
        = sent0 @ [[224, word_of_int (CMD_code command), (if default_true confirm then 1 else 0),
                    0, 0, 0]]"
    by (rule snd_exchange_None)
next
  show "uint (word_of_int (CMD_code command) :: byte) = CMD_code command"
    by (rule uint_CMD_code)
next
  assume "length d > 512 - 6"
  then show "exchange transport command confirm (Some d) sent0
           = (Inl (Error ''Data payload exceeds maximum size''), sent0)"
    by (simp add: exchange_too_large)
qed

theorem exchange_request_framing_witness:
  "snd (exchange (\<lambda>h. Inr [1, 2, 3, 144, 0]) TX_DUMP (Some False) (Some [0, 7]) [])
     = [[224, 120, 0, 0, 0, 2, 0, 7]]
   \<and> snd (exchange (\<lambda>h. Inr [1, 2, 3, 144, 0]) VERSION None None []) = [[224, 1, 1, 0, 0, 0]]
   \<and> exchange (\<lambda>h. Inr [1, 2, 3, 144, 0]) TX_DUMP None (Some (replicate 507 0)) []
     = (Inl (Error ''Data payload exceeds maximum size''), [])"
proof -
  let ?T = "\<lambda>h :: byte list list. (Inr [1, 2, 3, 144, 0] :: error + byte list)"
  have a: "length [0, 7 :: byte] \<le> 512 - 6" by simp
  have b: "length (replicate 507 (0 :: byte)) > 512 - 6" by simp
  from exchange_request_framing [of "[0, 7]" ?T TX_DUMP "Some False" "[]"] a
  have 1: "snd (exchange ?T TX_DUMP (Some False) (Some [0, 7]) []) = [[224, 120, 0, 0, 0, 2, 0, 7]]"
    by (simp add: default_true_def)
  from exchange_request_framing [of "[0, 7]" ?T VERSION None "[]"]
  have 2: "snd (exchange ?T VERSION None None []) = [[224, 1, 1, 0, 0, 0]]"
    by (simp add: default_true_def)
  from exchange_request_framing [of "replicate 507 0" ?T TX_DUMP None "[]"] b
  have 3: "exchange ?T TX_DUMP None (Some (replicate 507 0)) []
     = (Inl (Error ''Data payload exceeds maximum size''), [])"
    by blast
  show ?thesis using 1 2 3 by simp
qed

subsection \<open>The response of an exchange\<close>

lemma reader_uint16_t_pair:
  "reader_uint16_t (a # b # rest) = Inr (int (unat a * 256 + unat b), rest)"
  by (simp add: reader_uint16_t_def reader_bytes_def be_value_def)

lemma exchange_response_split:
  "exchange_response (body @ [hi, lo]) =
     (if unat hi * 256 + unat lo \<noteq> 36864
      then Inl (RequestFailed
                  (if length body \<ge> 2 then unat (body ! 0) * 256 + unat (body ! 1)
                   else unat hi * 256 + unat lo))
      else Inr body)"
proof (cases "length body \<ge> 2")
  case True
  then obtain a b rest where body: "body = a # b # rest"
    by (cases body; cases "tl body") auto
  show ?thesis
    by (simp add: exchange_response_def reader_uint16_t_pair ErrorCode_OK_def body
          del: of_nat_add of_nat_mult)
next
  case False
  then show ?thesis
    by (simp add: exchange_response_def reader_uint16_t_pair ErrorCode_OK_def
          del: of_nat_add of_nat_mult)
qed

text \<open>
  Claim C5. When the transport answers a request with a body followed by a two-byte
  status word: a status other than \<open>0x9000\<close> (36864) makes the exchange fail with the
  error code read big-endian from the first two bytes of the body when the body has at
  least two bytes, and with the status word itself otherwise; with status \<open>0x9000\<close>
  the body is returned unchanged.
\<close>

theorem exchange_status_word:
  assumes "exchange_request command confirm data = Inr request"
    and "transport (sent0 @ [request]) = Inr (body @ [hi, lo])"
  shows "fst (exchange transport command confirm data sent0) =
     (if unat hi * 256 + unat lo \<noteq> 36864
      then Inl (RequestFailed
                  (if length body \<ge> 2 then unat (body ! 0) * 256 + unat (body ! 1)
                   else unat hi * 256 + unat lo))
      else Inr body)"
  using assms
  by (simp add: exchange_def io_bind_def io_pure_def transport_exchange_def
        exchange_response_split)

theorem exchange_status_word_witness:
  "fst (exchange (\<lambda>h. Inr [1, 2, 3, 144, 0]) VERSION None None []) = Inr [1, 2, 3]
   \<and> fst (exchange (\<lambda>h. Inr [149, 6, 7, 105, 133]) TX_SIGN None None [])
       = Inl (RequestFailed 38150)
   \<and> fst (exchange (\<lambda>h. Inr [105, 133]) TX_SIGN None None []) = Inl (RequestFailed 27013)"
proof -
  have r1: "exchange_request VERSION None None = Inr [224, 1, 1, 0, 0, 0]"
    and r2: "exchange_request TX_SIGN None None = Inr [224, 119, 1, 0, 0, 0]"
    by (simp_all add: exchange_request_def default_true_def writer_uint8_t_def
          writer_uint16_t_def APDU_INS_def APDU_P1_CONFIRM_def APDU_P2_def)
  have t1: "(\<lambda>h :: byte list list. (Inr [1, 2, 3, 144, 0] :: error + byte list))
              ([] @ [[224, 1, 1, 0, 0, 0]]) = Inr ([1, 2, 3] @ [144, 0])"
    and t2: "(\<lambda>h :: byte list list. (Inr [149, 6, 7, 105, 133] :: error + byte list))
              ([] @ [[224, 119, 1, 0, 0, 0]]) = Inr ([149, 6, 7] @ [105, 133])"
    and t3: "(\<lambda>h :: byte list list. (Inr [105, 133] :: error + byte list))
              ([] @ [[224, 119, 1, 0, 0, 0]]) = Inr ([] @ [105, 133])"
    by simp_all
  show ?thesis
    using exchange_status_word [OF r1 t1] exchange_status_word [OF r2 t2]
      exchange_status_word [OF r2 t3]
    by simp
qed

subsection \<open>Validation of hex parameters\<close>

lemma is_hex_char_class: "is_hex_char = (\<lambda>c. c \<in> set ''0123456789abcdefABCDEF'')"
  by (rule ext) (simp only: is_hex_char_def)

lemma isHex64_iff:
  "isHex64 v = (length v = 64 \<and> list_all (\<lambda>c. c \<in> set ''0123456789abcdefABCDEF'') v)"
  unfolding isHex64_def isHex_def regex_hex_test_def is_hex_char_class by auto

lemma isHex128_iff:
  "isHex128 v = (length v = 128 \<and> list_all (\<lambda>c. c \<in> set ''0123456789abcdefABCDEF'') v)"
  unfolding isHex128_def isHex_def regex_hex_test_def is_hex_char_class by auto

text \<open>
  Claim C3, as amended. A parameter that is not exactly 64 hexadecimal characters of
  either case (128 for a signature) makes the operation fail with an error, and the
  list of requests sent is unchanged: the transport is not called.
\<close>

theorem malformed_hex_rejected:
  assumes "\<not> (length k = 64 \<and> list_all (\<lambda>c. c \<in> set ''0123456789abcdefABCDEF'') k)"
    and "\<not> (length sg = 128 \<and> list_all (\<lambda>c. c \<in> set ''0123456789abcdefABCDEF'') sg)"
  shows "checkKey transport k s = (Inl (Error ''Malformed key supplied''), s)
    \<and> checkScalar transport k s = (Inl (Error ''Malformed key supplied''), s)
    \<and> privateToPublic transport k s = (Inl (Error ''Malformed private_key supplied''), s)
    \<and> generateSignature transport k confirm s
        = (Inl (Error ''Malformed message_digest supplied''), s)
    \<and> (\<exists>m. LedgerDevice_generateKeyImage transport k i a confirm s = (Inl (Error m), s))
    \<and> (\<exists>m. LedgerDevice_generateKeyImage transport a i k confirm s = (Inl (Error m), s))
    \<and> (\<exists>m. completeRingSignature transport k i a b c confirm s = (Inl (Error m), s))
    \<and> (\<exists>m. completeRingSignature transport a i k b c confirm s = (Inl (Error m), s))
    \<and> (\<exists>m. completeRingSignature transport a i b k c confirm s = (Inl (Error m), s))
    \<and> (\<exists>m. completeRingSignature transport a i b c sg confirm s = (Inl (Error m), s))"
proof -
  from assms have k: "\<not> isHex64 k" and sg: "\<not> isHex128 sg"
    by (simp_all add: isHex64_iff isHex128_iff)
  show ?thesis
    using k sg
    by (simp add: checkKey_def checkScalar_def privateToPublic_def generateSignature_def
          LedgerDevice_generateKeyImage_def completeRingSignature_def io_throw_def)
qed

theorem malformed_hex_rejected_witness:
  "checkKey (\<lambda>h. Inr [1, 144, 0]) ''ZZ'' [] = (Inl (Error ''Malformed key supplied''), [])
   \<and> (\<exists>m. completeRingSignature (\<lambda>h. Inr [1, 144, 0]) ''00'' 0 ''00'' ''00'' ''abc'' None []
            = (Inl (Error m), []))"
proof -
  have a: "\<not> (length ''ZZ'' = 64 \<and> list_all (\<lambda>c. c \<in> set ''0123456789abcdefABCDEF'') ''ZZ'')"
    by simp
  have b: "\<not> (length ''abc'' = 128
              \<and> list_all (\<lambda>c. c \<in> set ''0123456789abcdefABCDEF'') ''abc'')"
    by simp
  from malformed_hex_rejected [OF a b, of "\<lambda>h. Inr [1, 144, 0]" "[]" None 0 "''00''" "''00''" "''00''"]
  show ?thesis by blast
qed

text \<open>
  The claim as stated asks for lowercase: the key of 64 characters \<open>A\<close> is not
  lowercase hex, yet \<open>checkKey\<close> accepts it and sends a \<open>CHECK_KEY\<close> request.
\<close>

theorem uppercase_hex_accepted:
  "\<not> (length ''AAAAAAAAAAAAAAAAAAAAAAAAAAAAAAAAAAAAAAAAAAAAAAAAAAAAAAAAAAAAAAAA'' = 64
       \<and> list_all (\<lambda>c. c \<in> set ''0123456789abcdef'')
            ''AAAAAAAAAAAAAAAAAAAAAAAAAAAAAAAAAAAAAAAAAAAAAAAAAAAAAAAAAAAAAAAA'')
   \<and> checkKey (\<lambda>h. Inr [1, 144, 0])
        ''AAAAAAAAAAAAAAAAAAAAAAAAAAAAAAAAAAAAAAAAAAAAAAAAAAAAAAAAAAAAAAAA'' []
      = (Inr True,
         [[224, 22, 1, 0, 0, 32,
           170, 170, 170, 170, 170, 170, 170, 170, 170, 170, 170, 170, 170, 170, 170, 170,
           170, 170, 170, 170, 170, 170, 170, 170, 170, 170, 170, 170, 170, 170, 170, 170]])"
  by (simp add: checkKey_def isHex64_iff exchange_def io_bind_def io_pure_def
        exchange_request_def exchange_response_def transport_exchange_def default_true_def
        writer_uint8_t_def writer_uint16_t_def APDU_INS_def APDU_P1_CONFIRM_def APDU_P2_def
        reader_uint16_t_def reader_bytes_def be_value_def ErrorCode_OK_def writer_hash_def
        hex_val_def reads_one_def reader_uint8_t_def sum_bind_def)

subsection \<open>Decomposition of an amount into outputs\<close>

text \<open>
  Claim C1 at a concrete input. With \<^verbatim>\<open>maximumOutputAmount = 30\<close> the amount 40 has
  the single piece 40, above the maximum. The inner loop pushes one chunk of 30 and
  stops at the remainder 10, which is pushed nowhere: the amounts returned sum to 30,
  not to 40.
\<close>

theorem generateTransactionOutputs_drops_remainder:
  "generateTransactionOutputs (\<lambda>a. Inr dest) (this_config\<lparr>maximumOutputAmount := 30\<rparr>)
       Config_json address 40
     = Some (Inr [\<lparr>go_amount = 30, go_destination = dest\<rparr>])
   \<and> sum_list (map go_amount [\<lparr>go_amount = 30, go_destination = dest\<rparr>]) \<noteq> 40"
  by (simp add: generateTransactionOutputs_def js_or_def toString.simps parseInt_def
        split_loop.simps)

subsection \<open>Key arguments that are not used\<close>

text \<open>
  Claim C10. The key arguments kept for compatibility with the host-side interface do
  not influence the helper: for any two choices of \<open>privateViewKey\<close>,
  \<open>publicSpendKey\<close> and \<open>privateSpendKey\<close>, \<open>generateKeyImage\<close> and
  \<open>isOurTransactionOutput\<close> are the same function of the state (same requests sent,
  same outcome, same state afterwards), and so is \<open>signMessage\<close> for any two choices
  of \<open>privateKey\<close>.
\<close>

theorem key_arguments_ignored:
  "generateKeyImage env transactionPublicKey privateViewKey1 publicSpendKey1 privateSpendKey1
       outputIndex
     = generateKeyImage env transactionPublicKey privateViewKey2 publicSpendKey2
         privateSpendKey2 outputIndex
   \<and> isOurTransactionOutput env transactionPublicKey output privateViewKey1 publicSpendKey1
         privateSpendKey1 generatePartial
     = isOurTransactionOutput env transactionPublicKey output privateViewKey2 publicSpendKey2
         privateSpendKey2 generatePartial
   \<and> signMessage env msg privateKey1 = signMessage env msg privateKey2"
  by (simp add: generateKeyImage_def isOurTransactionOutput_def signMessage_def Let_def)

subsection \<open>Scanning outputs\<close>

text \<open>
  Claim C2 at a concrete input. The session is ready, the provider derives the key
  \<open>''p''\<close> for every output, and the single output scanned has the key \<open>''q''\<close>:
  it is not ours. \<open>isOurTransactionOutput\<close> rejects with \<open>Not our output\<close>; the
  \<^verbatim>\<open>.catch()\<close> of line 267 has no handler, so \<^verbatim>\<open>Promise.all\<close> rejects and
  \<open>scanTransactionOutputs\<close> fails with that error instead of returning the empty
  list.
\<close>

theorem scanTransactionOutputs_rejects_foreign_output:
  "scanTransactionOutputs
     (env\<lparr>env_crypto := \<lparr>generateKeyDerivation = (\<lambda>pub priv. Inr ''d''),
                           derivePublicKey = (\<lambda>derivation idx pub. Inr ''p''),
                           cn_fast_hash = (\<lambda>hex. Inr ''h'')\<rparr>\<rparr>)
     transactionPublicKey
     [\<lparr>out_index = 0, out_key = ''q'', out_globalIndex = 7, out_amount = 100,
       out_input = None, out_keyImage = None\<rparr>]
     privateViewKey publicSpendKey privateSpendKey False
     (this\<lparr>m_fetched := True\<rparr>)
   = (Inl (Error ''Not our output''), this\<lparr>m_fetched := True\<rparr>)"
  by (simp add: scanTransactionOutputs_def promise_catch_def isOurTransactionOutput_def
        ensure_ready_def io_defs Let_def)

subsection \<open>A run of the builder on the scripted device\<close>

lemmas device_defs = exchange_def exchange_request_def exchange_response_def
  transport_exchange_def default_true_def writer_uint8_t_def writer_uint16_t_def
  writer_uint32_t_def writer_uint64_t_def writer_hash_def writer_hex_def hex_val_def
  APDU_INS_def APDU_P1_CONFIRM_def APDU_P1_NON_CONFIRM_def APDU_P2_def ErrorCode_OK_def
  reader_uint16_t_def reader_uint8_t_def reader_hash_def reader_hex_def reader_bytes_def
  be_value_def bytes_to_hex_def sum_bind_def reads_one_def reads_hash_def

lemma isHex64_example_key: "is_hex_char c \<Longrightarrow> isHex64 (example_key c)"
  by (simp add: isHex64_def isHex_def regex_hex_test_def example_key_def)

lemma ex_prepare:
  "prepareTransactionInputs [example_input ''0a''] [example_decoys] 3
     = Inr [\<lparr>pi_amount = 100, realOutputIndex = 2, pi_keyImage = ''0a'',
         pi_input = \<lparr>oi_publicEphemeral = example_key (CHR ''a''),
                        oi_transactionKeys = \<lparr>tk_publicKey = example_key (CHR ''b''),
                                              tk_derivedKey = example_key (CHR ''d''),
                                              tk_outputIndex = 0\<rparr>,
                        oi_privateEphemeral = None\<rparr>,
         pi_outputs = [\<lparr>pio_key = example_key (CHR ''3''), pio_index = 3\<rparr>,
            \<lparr>pio_key = example_key (CHR ''5''), pio_index = 5\<rparr>,
            \<lparr>pio_key = example_key (CHR ''a''), pio_index = 7\<rparr>,
            \<lparr>pio_key = example_key (CHR ''9''), pio_index = 9\<rparr>]\<rparr>]"
  by (simp add: prepareTransactionInputs_def prepare_input_def example_input_def
        example_decoys_def truthy_def string_of_def sum_bind_def Let_def)

lemma ex_rkp:
  "getRandomKeyPair example_transport [] =
     (Inr \<lparr>kp_publicKey = example_key (CHR ''1''),
           kp_privateKey = ''1212121212121212121212121212121212121212121212121212121212121212''\<rparr>,
      [[224, 25, 1, 0, 0, 0]])"
  by (simp add: getRandomKeyPair_def io_defs device_defs example_transport_def
        example_bytes32_def example_key_def Let_def)

lemmas tx_defs = transactionState_def resetTransaction_def startTransaction_def
  startTransactionInputLoad_def loadTransactionInput_def startTransactionOutputLoad_def
  loadTransactionOutput_def finalizeTransactionPrefix_def signTransaction_def
  retrieveTransaction_def retrieve_loop.simps expect_state_def getRandomKeyPair_def
  truthy_def string_of_def

lemma ex_prepare_outputs:
  "prepareTransactionOutputs example_crypto keys [example_output]
     = Inr \<lparr>pos_transactionKeys = keys,
            pos_outputs = [\<lparr>po_amount = 90, po_key = example_key (CHR ''e'')\<rparr>]\<rparr>"
  by (simp add: prepareTransactionOutputs_def prepareOutput_def example_crypto_def
        example_output_def sum_bind_def Let_def)

lemma ex_try:
  "\<exists>log. io_finally
     (createTransaction_try example_env 0
        [\<lparr>pi_amount = 100, realOutputIndex = 2, pi_keyImage = ''0a'',
         pi_input = \<lparr>oi_publicEphemeral = example_key (CHR ''a''),
                        oi_transactionKeys = \<lparr>tk_publicKey = example_key (CHR ''b''),
                                              tk_derivedKey = example_key (CHR ''d''),
                                              tk_outputIndex = 0\<rparr>,
                        oi_privateEphemeral = None\<rparr>,
         pi_outputs = [\<lparr>pio_key = example_key (CHR ''3''), pio_index = 3\<rparr>,
            \<lparr>pio_key = example_key (CHR ''5''), pio_index = 5\<rparr>,
            \<lparr>pio_key = example_key (CHR ''a''), pio_index = 7\<rparr>,
            \<lparr>pio_key = example_key (CHR ''9''), pio_index = 9\<rparr>]\<rparr>]
        \<lparr>pos_transactionKeys = keys,
            pos_outputs = [\<lparr>po_amount = 90, po_key = example_key (CHR ''e'')\<rparr>]\<rparr>
        \<lparr>kp_publicKey = example_key (CHR ''1''), kp_privateKey = priv\<rparr> None)
     (resetTransaction example_transport None) [[224, 25, 1, 0, 0, 0]]
   = (Inr \<lparr>tx_hash = example_key (CHR ''2''), tx_size = 3, tx_blob = [1, 2, 3]\<rparr>, log)
   \<and> last log = [224, 121, 1, 0, 0, 0] \<and> length log = 18"
  apply (simp add: createTransaction_try_def io_defs io_finally_def device_defs tx_defs example_env_def
     example_Config_def example_transport_def example_bytes32_def
     isHex64_example_key is_hex_char_def 
     Common_absoluteToRelativeOffsets_def toJSNumber_def Let_def)
  apply (simp add: example_key_def)
  done

lemma example_env_sel:
  "env_transport example_env = example_transport"
  "env_crypto example_env = example_crypto"
  "env_Config example_env = example_Config"
  by (simp_all add: example_env_def)

lemma example_note_sel:
  "config example_note = example_Config"
  "m_ledger example_note = []"
  by (simp_all add: example_note_def)

text \<open>
  The builder on the scripted device: one input with three decoys, one output, a fee
  of 10. The transaction is returned, 18 requests have been sent and the last one is
  \<open>TX_RESET\<close>.
\<close>

lemma ex_run:
  "\<exists>this'. createTransaction example_env [example_output] [example_input ''0a''] [example_decoys] 3
        (Some 10) None None None example_note
     = (Inr \<lparr>tx_hash = example_key (CHR ''2''), tx_size = 3, tx_blob = [1, 2, 3]\<rparr>, this')
   \<and> last (m_ledger this') = [224, 121, 1, 0, 0, 0] \<and> length (m_ledger this') = 18"
proof -
  from ex_try [of "\<lparr>kp_publicKey = example_key (CHR ''1''),
           kp_privateKey = ''1212121212121212121212121212121212121212121212121212121212121212''\<rparr>"
           "''1212121212121212121212121212121212121212121212121212121212121212''"]
  obtain log where
    run: "io_finally
     (createTransaction_try example_env 0
        [\<lparr>pi_amount = 100, realOutputIndex = 2, pi_keyImage = ''0a'',
         pi_input = \<lparr>oi_publicEphemeral = example_key (CHR ''a''),
                        oi_transactionKeys = \<lparr>tk_publicKey = example_key (CHR ''b''),
                                              tk_derivedKey = example_key (CHR ''d''),
                                              tk_outputIndex = 0\<rparr>,
                        oi_privateEphemeral = None\<rparr>,
         pi_outputs = [\<lparr>pio_key = example_key (CHR ''3''), pio_index = 3\<rparr>,
            \<lparr>pio_key = example_key (CHR ''5''), pio_index = 5\<rparr>,
            \<lparr>pio_key = example_key (CHR ''a''), pio_index = 7\<rparr>,
            \<lparr>pio_key = example_key (CHR ''9''), pio_index = 9\<rparr>]\<rparr>]
        \<lparr>pos_transactionKeys = \<lparr>kp_publicKey = example_key (CHR ''1''),
           kp_privateKey = ''1212121212121212121212121212121212121212121212121212121212121212''\<rparr>,
            pos_outputs = [\<lparr>po_amount = 90, po_key = example_key (CHR ''e'')\<rparr>]\<rparr>
        \<lparr>kp_publicKey = example_key (CHR ''1''), kp_privateKey = ''1212121212121212121212121212121212121212121212121212121212121212''\<rparr> None)
     (resetTransaction example_transport None) [[224, 25, 1, 0, 0, 0]]
   = (Inr \<lparr>tx_hash = example_key (CHR ''2''), tx_size = 3, tx_blob = [1, 2, 3]\<rparr>, log)"
    and log: "last log = [224, 121, 1, 0, 0, 0]" "length log = 18"
    by blast
  have amounts: "out_amount (example_input ''0a'') = 100" "length example_decoys = 3"
    "go_amount example_output = 90" "addr_paymentId (go_destination example_output) = []"
    by (simp_all add: example_input_def example_decoys_def example_output_def)
  have cfg: "maximumOutputAmount example_Config = 100000"
    "maximumOutputsPerTransaction example_Config = 90"
    "activateFeePerByteTransactions example_Config = False"
    by (simp_all add: example_Config_def)
  show ?thesis
    by (simp add: createTransaction_def io_defs on_ledger_def example_env_sel example_note_sel
          truthy_def js_or_def UINT64_MAX_def amounts cfg ex_prepare ex_rkp ex_prepare_outputs
          fusionCheck_def sort_by_keyImage_def run log)
qed

subsection \<open>The fusion checks\<close>

text \<open>When a computation succeeds, every step of it has succeeded.\<close>

lemma io_bind_Inr:
  "io_bind m f s = (Inr y, s') \<longleftrightarrow> (\<exists>x s1. m s = (Inr x, s1) \<and> f x s1 = (Inr y, s'))"
  by (auto simp: io_bind_def split: prod.splits sum.splits)

lemma io_pure_Inr: "io_pure r s = (Inr y, s') \<longleftrightarrow> r = Inr y \<and> s' = s"
  by (auto simp: io_pure_def)

lemma io_throw_Inr: "io_throw e s = (Inr y, s') \<longleftrightarrow> False"
  by (simp add: io_throw_def)

lemma io_return_Inr: "io_return x s = (Inr y, s') \<longleftrightarrow> y = x \<and> s' = s"
  by (auto simp: io_return_def)

lemma io_get_Inr: "io_get s = (Inr x, s') \<longleftrightarrow> x = s \<and> s' = s"
  by (auto simp: io_get_def)

lemma if_apply: "(if c then f else g) s = (if c then f s else g s)"
  by simp

lemmas io_Inr = io_bind_Inr io_pure_Inr io_throw_Inr io_return_Inr io_get_Inr if_apply

lemma sum_bind_Inr: "sum_bind r f = Inr y \<Longrightarrow> \<exists>x. r = Inr x \<and> f x = Inr y"
  by (auto simp: sum_bind_def split: sum.splits)

lemma prepare_loop_length:
  "prepare_loop randomOutputs mixin i inputs acc = Inr r \<Longrightarrow> length r = length acc + length inputs"
proof (induction inputs arbitrary: i acc)
  case Nil
  then show ?case by simp
next
  case (Cons a inputs)
  from Cons.prems obtain p where
    "prepare_loop randomOutputs mixin (Suc i) inputs (acc @ [p]) = Inr r"
    by (auto dest!: sum_bind_Inr)
  from Cons.IH [OF this] show ?case by simp
qed

lemma prepareTransactionInputs_length:
  "prepareTransactionInputs inputs randomOutputs mixin = Inr r \<Longrightarrow> length r = length inputs"
  by (auto simp: prepareTransactionInputs_def split: if_splits dest: prepare_loop_length)






text \<open>
  On the scripted device the call with no fee and a single input gets as far as the
  check and fails with the message that quotes the configured count 20. The only
  request sent is \<open>RANDOM_KEY_PAIR\<close>.
\<close>

lemma ex_fusion_run:
  "createTransaction example_env [example_output] [example_input ''0a'']
          [example_decoys] 3 (Some 0) None None None example_note
     = (Inl (FusionMinInputs 20), example_note\<lparr>m_ledger := [[224, 25, 1, 0, 0, 0]]\<rparr>)"
proof -
  have amounts: "out_amount (example_input ''0a'') = 100" "length example_decoys = 3"
    "go_amount example_output = 90" "addr_paymentId (go_destination example_output) = []"
    by (simp_all add: example_input_def example_decoys_def example_output_def)
  have cfg: "maximumOutputAmount example_Config = 100000"
    "maximumOutputsPerTransaction example_Config = 90"
    "activateFeePerByteTransactions example_Config = False"
    "fusionMinInputCount example_Config = 20"
    by (simp_all add: example_Config_def)
  show ?thesis
    by (simp add: createTransaction_def io_defs on_ledger_def example_env_sel example_note_sel
          truthy_def js_or_def UINT64_MAX_def amounts cfg ex_prepare ex_rkp ex_prepare_outputs
          fusionCheck_def)
qed

subsection \<open>The reset at the end of a transaction\<close>

text \<open>
  Every operation of the device client only appends to the list of requests sent.
  \<open>appends m\<close> says so of the computation \<open>m\<close>.
\<close>

lemma appends_return: "appends (io_return x)"
  by (simp add: appends_def io_return_def)

lemma appends_throw: "appends (io_throw e)"
  by (simp add: appends_def io_throw_def)

lemma appends_pure: "appends (io_pure r)"
  by (simp add: appends_def io_pure_def)

lemma appends_bind:
  assumes "appends m" and "\<And>x. appends (f x)"
  shows "appends (io_bind m f)"
  unfolding appends_def
proof
  fix s
  obtain r s1 where m: "m s = (r, s1)" by (cases "m s")
  from assms(1) m obtain e1 where s1: "s1 = s @ e1"
    unfolding appends_def by (metis snd_conv)
  show "\<exists>ext. snd (io_bind m f s) = s @ ext"
  proof (cases r)
    case (Inl e)
    with m s1 show ?thesis by (simp add: io_bind_def)
  next
    case (Inr x)
    from assms(2) [of x] obtain e2 where "snd (f x s1) = s1 @ e2"
      unfolding appends_def by blast
    with m s1 Inr show ?thesis by (simp add: io_bind_def)
  qed
qed

lemma appends_if: "appends a \<Longrightarrow> appends b \<Longrightarrow> appends (if c then a else b)"
  by simp

lemma appends_exchange: "appends (exchange transport command confirm data)"
  by (auto simp: appends_def exchange_def io_bind_def io_pure_def transport_exchange_def
        split: sum.splits prod.splits)

lemmas appends_intros = appends_return appends_throw appends_pure appends_bind appends_if
  appends_exchange

lemma appends_expect_state: "appends (expect_state transport expected m)"
  unfolding expect_state_def transactionState_def by (intro appends_intros)

lemma appends_load_inputs: "appends (load_inputs transport Config_json xs)"
proof (induction xs)
  case Nil
  show ?case by (simp add: appends_return)
next
  case (Cons x xs)
  show ?case
    unfolding load_inputs.simps loadTransactionInput_def
    by (intro appends_intros Cons)
qed

lemma appends_load_outputs: "appends (load_outputs transport Config_json xs)"
proof (induction xs)
  case Nil
  show ?case by (simp add: appends_return)
next
  case (Cons x xs)
  show ?case
    unfolding load_outputs.simps loadTransactionOutput_def
    by (intro appends_intros Cons)
qed

lemma retrieve_loop_appends: "\<exists>ext. snd (retrieve_loop transport mx response s) = s @ ext"
proof (induction transport mx response s rule: retrieve_loop.induct)
  case (1 transport mx response sent0)
  let ?x = "exchange transport TX_DUMP None (Some (writer_uint16_t (int (length response))))"
  obtain r s1 where x: "?x sent0 = (r, s1)" by (cases "?x sent0")
  from appends_exchange [of transport TX_DUMP None "Some (writer_uint16_t (int (length response)))"] x
  obtain e1 where s1: "s1 = sent0 @ e1"
    unfolding appends_def by (metis snd_conv)
  show ?case
  proof (cases "int (length response) < mx")
    case False
    then show ?thesis by (simp add: retrieve_loop.simps)
  next
    case True
    show ?thesis
    proof (cases r)
      case (Inl e)
      with True x s1 show ?thesis by (simp add: retrieve_loop.simps)
    next
      case (Inr result)
      show ?thesis
      proof (cases "length result = 0")
        case True
        with \<open>int (length response) < mx\<close> x s1 Inr show ?thesis
          by (simp add: retrieve_loop.simps)
      next
        case False
        from "1.IH" [OF \<open>int (length response) < mx\<close> x [symmetric, unfolded Inr] refl False]
        obtain e2 where "snd (retrieve_loop transport mx (response @ result) s1) = s1 @ e2"
          by blast
        with \<open>int (length response) < mx\<close> x s1 Inr False show ?thesis
          by (simp add: retrieve_loop.simps)
      qed
    qed
  qed
qed

lemma appends_retrieve_loop: "appends (retrieve_loop transport mx response)"
  unfolding appends_def using retrieve_loop_appends by blast

lemma appends_createTransaction_try:
  "appends (createTransaction_try env unlockTime transactionInputs transactionOutputs tx_keys
              paymentId)"
  unfolding createTransaction_try_def Let_def startTransaction_def startTransactionInputLoad_def
    startTransactionOutputLoad_def finalizeTransactionPrefix_def signTransaction_def
    retrieveTransaction_def
  by (intro appends_intros appends_expect_state appends_load_inputs appends_load_outputs
        appends_retrieve_loop)

lemma snd_bind_pure:
  assumes "\<And>x s'. snd (f x s') = s'"
  shows "snd (io_bind m f s) = snd (m s)"
proof (cases "m s")
  case (Pair r s1)
  then show ?thesis using assms by (cases r) (simp_all add: io_bind_def)
qed

lemma snd_resetTransaction:
  "snd (resetTransaction transport None s) = s @ [[224, 121, 1, 0, 0, 0]]"
  unfolding resetTransaction_def
  by (subst snd_bind_pure) (simp_all add: io_return_def snd_exchange_None default_true_def)

lemma snd_finally_reset:
  "snd (io_finally body (resetTransaction transport None) s)
     = snd (body s) @ [[224, 121, 1, 0, 0, 0]]"
proof (cases "body s")
  case (Pair r s1)
  obtain r2 s2 where reset: "resetTransaction transport None s1 = (r2, s2)"
    by (cases "resetTransaction transport None s1")
  with snd_resetTransaction [of transport s1] have "s2 = s1 @ [[224, 121, 1, 0, 0, 0]]"
    by simp
  with Pair reset show ?thesis by (cases r2) (simp_all add: io_finally_def)
qed

lemma try_finally_log:
  "\<exists>mid. snd (io_finally
                (createTransaction_try env unlockTime transactionInputs transactionOutputs
                   tx_keys paymentId)
                (resetTransaction (env_transport env) None) s)
           = s @ mid @ [[224, 121, 1, 0, 0, 0]]"
proof -
  from appends_createTransaction_try
  obtain mid where
    "snd (createTransaction_try env unlockTime transactionInputs transactionOutputs tx_keys
            paymentId s) = s @ mid"
    unfolding appends_def by blast
  then show ?thesis by (simp add: snd_finally_reset)
qed

lemma snd_getRandomKeyPair:
  "snd (getRandomKeyPair transport s) = s @ [[224, 25, 1, 0, 0, 0]]"
  unfolding getRandomKeyPair_def
  by (subst snd_bind_pure) (simp_all add: io_pure_def snd_exchange_None default_true_def)

text \<open>The outcome of a computation, step by step.\<close>

lemma io_bind_eq:
  "io_bind m f s = (r, s') \<longleftrightarrow>
     (\<exists>e. m s = (Inl e, s') \<and> r = Inl e) \<or> (\<exists>x s1. m s = (Inr x, s1) \<and> f x s1 = (r, s'))"
  by (cases "m s"; cases "fst (m s)") (auto simp: io_bind_def)

lemma io_pure_eq: "io_pure r0 s = (r, s') \<longleftrightarrow> r = r0 \<and> s' = s"
  by (auto simp: io_pure_def)

lemma io_throw_eq: "io_throw e s = (r, s') \<longleftrightarrow> r = Inl e \<and> s' = s"
  by (auto simp: io_throw_def)

lemma io_return_eq: "io_return x s = (r, s') \<longleftrightarrow> r = Inr x \<and> s' = s"
  by (auto simp: io_return_def)

lemma io_get_eq: "io_get s = (r, s') \<longleftrightarrow> r = Inr s \<and> s' = s"
  by (auto simp: io_get_def)

lemma on_ledger_eq:
  "on_ledger m this = (r, this') \<longleftrightarrow>
     (\<exists>l. m (m_ledger this) = (r, l) \<and> this' = this\<lparr>m_ledger := l\<rparr>)"
  by (cases "m (m_ledger this)") (auto simp: on_ledger_def)

lemmas io_eq = io_bind_eq io_pure_eq io_throw_eq io_return_eq io_get_eq on_ledger_eq if_apply

lemma getRandomKeyPair_log:
  "getRandomKeyPair transport s = (r, l) \<Longrightarrow> l = s @ [[224, 25, 1, 0, 0, 0]]"
  using snd_getRandomKeyPair [of transport s] by simp

lemma try_finally_result_log:
  "io_finally
     (createTransaction_try env unlockTime transactionInputs transactionOutputs tx_keys
        paymentId)
     (resetTransaction (env_transport env) None) s = (r, l)
   \<Longrightarrow> \<exists>mid. l = s @ mid @ [[224, 121, 1, 0, 0, 0]]"
  using try_finally_log [of env unlockTime transactionInputs transactionOutputs tx_keys
      paymentId s]
  by simp

lemma on_ledger_Inr:
  "on_ledger m this = (Inr x, this') \<longleftrightarrow>
     (\<exists>l. m (m_ledger this) = (Inr x, l) \<and> this' = this\<lparr>m_ledger := l\<rparr>)"
  by (rule on_ledger_eq)

lemma createTransaction_success_log:
  assumes "createTransaction env outs inputs randomOutputs mixin feeAmount paymentId
             unlockTime extraData this = (Inr tx, this')"
  shows "\<exists>mid. m_ledger this'
             = m_ledger this @ [[224, 25, 1, 0, 0, 0]] @ mid @ [[224, 121, 1, 0, 0, 0]]"
  using assms
  by (auto simp: createTransaction_def Let_def io_Inr on_ledger_Inr split: if_splits prod.splits
        dest!: getRandomKeyPair_log try_finally_result_log)

lemma createTransaction_log:
  assumes "createTransaction env outs inputs randomOutputs mixin feeAmount paymentId
             unlockTime extraData this = (r, this')"
  shows "m_ledger this' = m_ledger this
   \<or> m_ledger this' = m_ledger this @ [[224, 25, 1, 0, 0, 0]]
   \<or> (\<exists>mid. m_ledger this'
             = m_ledger this @ [[224, 25, 1, 0, 0, 0]] @ mid @ [[224, 121, 1, 0, 0, 0]])"
  using assms
  apply (simp add: createTransaction_def Let_def io_eq split: if_splits prod.splits)
  apply (elim disjE exE conjE; (simp; fail)?)
  apply (auto dest!: getRandomKeyPair_log try_finally_result_log)
  done

text \<open>
  \<open>createTransaction\<close> is its part before the \<^verbatim>\<open>try\<close> block followed by the
  \<^verbatim>\<open>try\<close> block with its \<^verbatim>\<open>finally\<close> clause.
\<close>

lemma io_bind_assoc: "io_bind (io_bind m f) g = io_bind m (\<lambda>x. io_bind (f x) g)"
  by (rule ext) (simp add: io_bind_def split: prod.splits sum.splits)

lemma io_bind_throw: "io_bind (io_throw e) g = io_throw e"
  by (rule ext) (simp add: io_bind_def io_throw_def)

lemma io_bind_return: "io_bind (io_return x) g = g x"
  by (rule ext) (simp add: io_bind_def io_return_def)

lemma io_bind_if:
  "io_bind (if c then a else b) g = (if c then io_bind a g else io_bind b g)"
  by simp

lemma io_bind_case_prod:
  "io_bind (case p of (a, b) \<Rightarrow> f a b) g = (case p of (a, b) \<Rightarrow> io_bind (f a b) g)"
  by (cases p) simp

lemma createTransaction_split:
  "createTransaction env outs inputs randomOutputs mixin feeAmount paymentId unlockTime
     extraData
   = io_bind (createTransaction_before_try env outs inputs randomOutputs mixin feeAmount
                paymentId unlockTime extraData)
       (\<lambda>(unlockTime', sortedInputs, transactionOutputs, tx_keys).
          on_ledger
            (io_finally
               (createTransaction_try env unlockTime' sortedInputs transactionOutputs tx_keys
                  paymentId)
               (resetTransaction (env_transport env) None)))"
  unfolding createTransaction_def createTransaction_before_try_def Let_def
  by (simp only: io_bind_assoc io_bind_throw io_bind_return io_bind_if io_bind_case_prod
        prod.case)

lemma before_try_error:
  assumes "createTransaction_before_try env outs inputs randomOutputs mixin feeAmount paymentId
             unlockTime extraData this = (Inl e, this1)"
  shows "createTransaction env outs inputs randomOutputs mixin feeAmount paymentId unlockTime
           extraData this = (Inl e, this1)"
  using assms by (simp add: createTransaction_split io_bind_def)

lemma before_try_error_log:
  assumes "createTransaction_before_try env outs inputs randomOutputs mixin feeAmount paymentId
             unlockTime extraData this = (Inl e, this1)"
  shows "m_ledger this1 = m_ledger this
         \<or> m_ledger this1 = m_ledger this @ [[224, 25, 1, 0, 0, 0]]"
  using assms
  apply (simp add: createTransaction_before_try_def Let_def io_eq split: if_splits prod.splits)
  apply (elim disjE exE conjE; (simp; fail)?)
  apply (auto dest!: getRandomKeyPair_log)
  done

lemma before_try_success_log:
  assumes "createTransaction_before_try env outs inputs randomOutputs mixin feeAmount paymentId
             unlockTime extraData this = (Inr x, this2)"
  shows "m_ledger this2 = m_ledger this @ [[224, 25, 1, 0, 0, 0]]"
  using assms
  by (auto simp: createTransaction_before_try_def Let_def io_Inr on_ledger_Inr
        split: if_splits prod.splits dest!: getRandomKeyPair_log)

lemma resetTransaction_outcome:
  "resetTransaction transport None l
     = (fst (resetTransaction transport None l), l @ [[224, 121, 1, 0, 0, 0]])"
  using snd_resetTransaction [of transport l] by (simp add: prod_eq_iff)

lemma try_block_outcome:
  assumes before: "createTransaction_before_try env outs inputs randomOutputs mixin feeAmount
             paymentId unlockTime extraData this
           = (Inr (unlockTime', sortedInputs, transactionOutputs, tx_keys), this2)"
    and body: "createTransaction_try env unlockTime' sortedInputs transactionOutputs tx_keys
             paymentId (m_ledger this2) = (r, l)"
  shows "createTransaction env outs inputs randomOutputs mixin feeAmount paymentId unlockTime
           extraData this
         = (case fst (resetTransaction (env_transport env) None l) of
              Inl e' \<Rightarrow> Inl e' | Inr u \<Rightarrow> r,
            this2\<lparr>m_ledger := l @ [[224, 121, 1, 0, 0, 0]]\<rparr>)"
proof -
  obtain r2 where reset: "resetTransaction (env_transport env) None l
      = (r2, l @ [[224, 121, 1, 0, 0, 0]])"
    using resetTransaction_outcome by blast
  show ?thesis
    using before body
    by (cases r2) (simp_all add: createTransaction_split io_bind_def on_ledger_def
          io_finally_def reset)
qed

lemma try_block_appends:
  assumes "createTransaction_try env unlockTime' sortedInputs transactionOutputs tx_keys
             paymentId s = (r, l)"
  shows "\<exists>mid. l = s @ mid"
proof -
  from appends_createTransaction_try
  obtain mid where
    "snd (createTransaction_try env unlockTime' sortedInputs transactionOutputs tx_keys
            paymentId s) = s @ mid"
    unfolding appends_def by blast
  with assms show ?thesis by simp
qed

text \<open>
  The scripted run up to the \<^verbatim>\<open>try\<close> block, with a fee of 10 and any payment
  id, and with no fee.
\<close>

lemma ex_before_try:
  "createTransaction_before_try example_env [example_output] [example_input ''0a'']
     [example_decoys] 3 (Some 10) paymentId None None example_note
   = (Inr (0, [example_prepared ''0a''],
           \<lparr>pos_transactionKeys =
              \<lparr>kp_publicKey = example_key (CHR ''1''),
                kp_privateKey = ''1212121212121212121212121212121212121212121212121212121212121212''\<rparr>,
            pos_outputs = [\<lparr>po_amount = 90, po_key = example_key (CHR ''e'')\<rparr>]\<rparr>,
           \<lparr>kp_publicKey = example_key (CHR ''1''),
             kp_privateKey = ''1212121212121212121212121212121212121212121212121212121212121212''\<rparr>),
      example_note\<lparr>m_ledger := [[224, 25, 1, 0, 0, 0]]\<rparr>)"
proof -
  have amounts: "out_amount (example_input ''0a'') = 100" "length example_decoys = 3"
    "go_amount example_output = 90" "addr_paymentId (go_destination example_output) = []"
    by (simp_all add: example_input_def example_decoys_def example_output_def)
  have cfg: "maximumOutputAmount example_Config = 100000"
    "maximumOutputsPerTransaction example_Config = 90"
    "activateFeePerByteTransactions example_Config = False"
    by (simp_all add: example_Config_def)
  show ?thesis
    by (simp add: createTransaction_before_try_def io_defs on_ledger_def example_env_sel
          example_note_sel truthy_def js_or_def UINT64_MAX_def amounts cfg ex_prepare ex_rkp
          ex_prepare_outputs fusionCheck_def sort_by_keyImage_def example_prepared_def)
qed

lemma ex_before_try_fusion:
  "createTransaction_before_try example_env [example_output] [example_input ''0a'']
     [example_decoys] 3 (Some 0) None None None example_note
   = (Inl (FusionMinInputs 20), example_note\<lparr>m_ledger := [[224, 25, 1, 0, 0, 0]]\<rparr>)"
proof -
  have amounts: "out_amount (example_input ''0a'') = 100" "length example_decoys = 3"
    "go_amount example_output = 90" "addr_paymentId (go_destination example_output) = []"
    by (simp_all add: example_input_def example_decoys_def example_output_def)
  have cfg: "maximumOutputAmount example_Config = 100000"
    "maximumOutputsPerTransaction example_Config = 90"
    "activateFeePerByteTransactions example_Config = False"
    "fusionMinInputCount example_Config = 20"
    by (simp_all add: example_Config_def)
  show ?thesis
    by (simp add: createTransaction_before_try_def io_defs on_ledger_def example_env_sel
          example_note_sel truthy_def js_or_def UINT64_MAX_def amounts cfg ex_prepare ex_rkp
          ex_prepare_outputs fusionCheck_def)
qed

lemma ex_try_malformed:
  "createTransaction_try example_env 0 [example_prepared ''0a'']
     \<lparr>pos_transactionKeys = keys,
      pos_outputs = [\<lparr>po_amount = 90, po_key = example_key (CHR ''e'')\<rparr>]\<rparr>
     \<lparr>kp_publicKey = example_key (CHR ''1''), kp_privateKey = priv\<rparr> (Some ''zz'') s
   = (Inl (Error ''Malformed payment_id supplied''), s)"
proof -
  have key: "isHex64 (example_key (CHR ''1''))"
    by (simp add: isHex64_example_key is_hex_char_def)
  have bad: "\<not> isHex64 ''zz''"
    by (simp add: isHex64_def)
  show ?thesis
    by (simp add: createTransaction_try_def startTransaction_def io_defs truthy_def
          string_of_def key bad Let_def)
qed

lemma ex_reset:
  "resetTransaction example_transport None [[224, 25, 1, 0, 0, 0]]
     = (Inr (), [[224, 25, 1, 0, 0, 0], [224, 121, 1, 0, 0, 0]])"
  by (simp add: resetTransaction_def io_defs device_defs example_transport_def Let_def)


text \<open>
  Claim C8, as amended. A call of \<open>createTransaction\<close> runs
  \<open>createTransaction_before_try\<close>, the code before the \<^verbatim>\<open>try\<close> block, and then
  the \<^verbatim>\<open>try\<close> block. (1) If the code before the \<^verbatim>\<open>try\<close> block fails, the call
  fails with that error and in that state, and it has sent nothing or
  \<open>RANDOM_KEY_PAIR\<close> alone: no \<open>TX_RESET\<close>. (2) If it succeeds,
  \<open>RANDOM_KEY_PAIR\<close> is all that has been sent; then whatever the outcome \<open>r\<close> of the
  body of the \<^verbatim>\<open>try\<close> block from \<open>startTransaction\<close> on, an error or the
  transaction, and whatever it has sent, the call sends \<open>TX_RESET\<close> next and nothing
  after it, and its outcome is \<open>r\<close>, or the error of the reset if the reset fails.
  (3) So a call ends with nothing sent, with \<open>RANDOM_KEY_PAIR\<close> alone, or with
  \<open>RANDOM_KEY_PAIR\<close> first and \<open>TX_RESET\<close> last, and (4) a call that returns a
  transaction ends in the last of these ways.
\<close>

theorem createTransaction_reset:
  "(createTransaction_before_try env outs inputs randomOutputs mixin feeAmount paymentId
        unlockTime extraData this = (Inl e, this1)
      \<longrightarrow> createTransaction env outs inputs randomOutputs mixin feeAmount paymentId unlockTime
            extraData this = (Inl e, this1)
          \<and> (m_ledger this1 = m_ledger this
             \<or> m_ledger this1 = m_ledger this @ [[224, 25, 1, 0, 0, 0]]))
   \<and> (createTransaction_before_try env outs inputs randomOutputs mixin feeAmount paymentId
         unlockTime extraData this
         = (Inr (unlockTime', sortedInputs, transactionOutputs, tx_keys), this2)
       \<and> createTransaction_try env unlockTime' sortedInputs transactionOutputs tx_keys
           paymentId (m_ledger this2) = (r, l)
      \<longrightarrow> m_ledger this2 = m_ledger this @ [[224, 25, 1, 0, 0, 0]]
          \<and> (\<exists>mid. l = m_ledger this2 @ mid)
          \<and> createTransaction env outs inputs randomOutputs mixin feeAmount paymentId
              unlockTime extraData this
            = (case fst (resetTransaction (env_transport env) None l) of
                 Inl e' \<Rightarrow> Inl e' | Inr u \<Rightarrow> r,
               this2\<lparr>m_ledger := l @ [[224, 121, 1, 0, 0, 0]]\<rparr>))
   \<and> (createTransaction env outs inputs randomOutputs mixin feeAmount paymentId unlockTime
         extraData this = (r', this')
       \<longrightarrow> m_ledger this' = m_ledger this
           \<or> m_ledger this' = m_ledger this @ [[224, 25, 1, 0, 0, 0]]
           \<or> (\<exists>mid. m_ledger this'
                  = m_ledger this @ [[224, 25, 1, 0, 0, 0]] @ mid @ [[224, 121, 1, 0, 0, 0]]))
   \<and> (createTransaction env outs inputs randomOutputs mixin feeAmount paymentId unlockTime
         extraData this = (Inr tx, this'')
       \<longrightarrow> (\<exists>mid. m_ledger this''
                  = m_ledger this @ [[224, 25, 1, 0, 0, 0]] @ mid @ [[224, 121, 1, 0, 0, 0]]))"
proof (intro conjI impI)
  assume "createTransaction_before_try env outs inputs randomOutputs mixin feeAmount paymentId
        unlockTime extraData this = (Inl e, this1)"
  then show "createTransaction env outs inputs randomOutputs mixin feeAmount paymentId unlockTime
            extraData this = (Inl e, this1)"
    and "m_ledger this1 = m_ledger this
             \<or> m_ledger this1 = m_ledger this @ [[224, 25, 1, 0, 0, 0]]"
    by (rule before_try_error, rule before_try_error_log)
next
  assume both: "createTransaction_before_try env outs inputs randomOutputs mixin feeAmount
         paymentId unlockTime extraData this
         = (Inr (unlockTime', sortedInputs, transactionOutputs, tx_keys), this2)
       \<and> createTransaction_try env unlockTime' sortedInputs transactionOutputs tx_keys
           paymentId (m_ledger this2) = (r, l)"
  then show "m_ledger this2 = m_ledger this @ [[224, 25, 1, 0, 0, 0]]"
    using before_try_success_log by blast
  from both show "\<exists>mid. l = m_ledger this2 @ mid"
    using try_block_appends by blast
  from both show "createTransaction env outs inputs randomOutputs mixin feeAmount paymentId
              unlockTime extraData this
            = (case fst (resetTransaction (env_transport env) None l) of
                 Inl e' \<Rightarrow> Inl e' | Inr u \<Rightarrow> r,
               this2\<lparr>m_ledger := l @ [[224, 121, 1, 0, 0, 0]]\<rparr>)"
    using try_block_outcome by blast
next
  assume "createTransaction env outs inputs randomOutputs mixin feeAmount paymentId unlockTime
         extraData this = (r', this')"
  then show "m_ledger this' = m_ledger this
           \<or> m_ledger this' = m_ledger this @ [[224, 25, 1, 0, 0, 0]]
           \<or> (\<exists>mid. m_ledger this'
                  = m_ledger this @ [[224, 25, 1, 0, 0, 0]] @ mid @ [[224, 121, 1, 0, 0, 0]])"
    by (rule createTransaction_log)
next
  assume "createTransaction env outs inputs randomOutputs mixin feeAmount paymentId unlockTime
         extraData this = (Inr tx, this'')"
  then show "\<exists>mid. m_ledger this''
                  = m_ledger this @ [[224, 25, 1, 0, 0, 0]] @ mid @ [[224, 121, 1, 0, 0, 0]]"
    by (rule createTransaction_success_log)
qed


theorem createTransaction_reset_witness:
  "createTransaction example_env [example_output] [example_input ''0a''] [example_decoys] 3
       (Some 10) (Some ''zz'') None None example_note
     = (Inl (Error ''Malformed payment_id supplied''),
        example_note\<lparr>m_ledger := [[224, 25, 1, 0, 0, 0], [224, 121, 1, 0, 0, 0]]\<rparr>)
   \<and> createTransaction example_env [example_output] [example_input ''0a''] [example_decoys] 3
       (Some 0) None None None example_note
     = (Inl (FusionMinInputs 20), example_note\<lparr>m_ledger := [[224, 25, 1, 0, 0, 0]]\<rparr>)
   \<and> (\<exists>this' mid.
       createTransaction example_env [example_output] [example_input ''0a''] [example_decoys] 3
         (Some 10) None None None example_note
         = (Inr \<lparr>tx_hash = example_key (CHR ''2''), tx_size = 3, tx_blob = [1, 2, 3]\<rparr>, this')
       \<and> m_ledger this' = [[224, 25, 1, 0, 0, 0]] @ mid @ [[224, 121, 1, 0, 0, 0]])"
proof -
  have body: "createTransaction_try example_env 0 [example_prepared ''0a'']
      \<lparr>pos_transactionKeys =
         \<lparr>kp_publicKey = example_key (CHR ''1''),
           kp_privateKey = ''1212121212121212121212121212121212121212121212121212121212121212''\<rparr>,
       pos_outputs = [\<lparr>po_amount = 90, po_key = example_key (CHR ''e'')\<rparr>]\<rparr>
      \<lparr>kp_publicKey = example_key (CHR ''1''),
        kp_privateKey = ''1212121212121212121212121212121212121212121212121212121212121212''\<rparr>
      (Some ''zz'') (m_ledger (example_note\<lparr>m_ledger := [[224, 25, 1, 0, 0, 0]]\<rparr>))
    = (Inl (Error ''Malformed payment_id supplied''), [[224, 25, 1, 0, 0, 0]])"
    by (simp add: ex_try_malformed)
  from createTransaction_reset [where env = example_env and outs = "[example_output]"
      and inputs = "[example_input ''0a'']" and randomOutputs = "[example_decoys]"
      and mixin = 3 and feeAmount = "Some 10" and paymentId = "Some ''zz''"
      and unlockTime = None and extraData = None and this = example_note
      and unlockTime' = 0 and sortedInputs = "[example_prepared ''0a'']"
      and transactionOutputs = "\<lparr>pos_transactionKeys =
         \<lparr>kp_publicKey = example_key (CHR ''1''),
           kp_privateKey = ''1212121212121212121212121212121212121212121212121212121212121212''\<rparr>,
       pos_outputs = [\<lparr>po_amount = 90, po_key = example_key (CHR ''e'')\<rparr>]\<rparr>"
      and tx_keys = "\<lparr>kp_publicKey = example_key (CHR ''1''),
        kp_privateKey = ''1212121212121212121212121212121212121212121212121212121212121212''\<rparr>"
      and ?this2.0 = "example_note\<lparr>m_ledger := [[224, 25, 1, 0, 0, 0]]\<rparr>"
      and r = "Inl (Error ''Malformed payment_id supplied'')"
      and l = "[[224, 25, 1, 0, 0, 0]]"]
    ex_before_try [of "Some ''zz''"] body
  have "createTransaction example_env [example_output] [example_input ''0a''] [example_decoys] 3
      (Some 10) (Some ''zz'') None None example_note
    = (case fst (resetTransaction (env_transport example_env) None [[224, 25, 1, 0, 0, 0]]) of
         Inl e' \<Rightarrow> Inl e' | Inr u \<Rightarrow> Inl (Error ''Malformed payment_id supplied''),
       example_note\<lparr>m_ledger := [[224, 25, 1, 0, 0, 0]]\<rparr>
         \<lparr>m_ledger := [[224, 25, 1, 0, 0, 0]] @ [[224, 121, 1, 0, 0, 0]]\<rparr>)"
    by blast
  then have malformed: "createTransaction example_env [example_output] [example_input ''0a'']
      [example_decoys] 3 (Some 10) (Some ''zz'') None None example_note
    = (Inl (Error ''Malformed payment_id supplied''),
       example_note\<lparr>m_ledger := [[224, 25, 1, 0, 0, 0], [224, 121, 1, 0, 0, 0]]\<rparr>)"
    by (simp add: example_env_sel ex_reset)
  from createTransaction_reset [where env = example_env and outs = "[example_output]"
      and inputs = "[example_input ''0a'']" and randomOutputs = "[example_decoys]"
      and mixin = 3 and feeAmount = "Some 0" and paymentId = None
      and unlockTime = None and extraData = None and this = example_note
      and e = "FusionMinInputs 20"
      and ?this1.0 = "example_note\<lparr>m_ledger := [[224, 25, 1, 0, 0, 0]]\<rparr>"]
    ex_before_try_fusion
  have fusion: "createTransaction example_env [example_output] [example_input ''0a'']
      [example_decoys] 3 (Some 0) None None None example_note
    = (Inl (FusionMinInputs 20), example_note\<lparr>m_ledger := [[224, 25, 1, 0, 0, 0]]\<rparr>)"
    by blast
  from ex_run obtain this' where
    run: "createTransaction example_env [example_output] [example_input ''0a'']
            [example_decoys] 3 (Some 10) None None None example_note
          = (Inr \<lparr>tx_hash = example_key (CHR ''2''), tx_size = 3, tx_blob = [1, 2, 3]\<rparr>, this')"
    by blast
  from createTransaction_reset [where env = example_env and outs = "[example_output]"
      and inputs = "[example_input ''0a'']" and randomOutputs = "[example_decoys]"
      and mixin = 3 and feeAmount = "Some 10" and paymentId = None and unlockTime = None
      and extraData = None and this = example_note and this'' = this'
      and tx = "\<lparr>tx_hash = example_key (CHR ''2''), tx_size = 3, tx_blob = [1, 2, 3]\<rparr>"]
    run
  obtain mid where
    "m_ledger this' = m_ledger example_note @ [[224, 25, 1, 0, 0, 0]] @ mid
                        @ [[224, 121, 1, 0, 0, 0]]"
    by blast
  with run have "\<exists>this' mid.
       createTransaction example_env [example_output] [example_input ''0a''] [example_decoys] 3
         (Some 10) None None None example_note
         = (Inr \<lparr>tx_hash = example_key (CHR ''2''), tx_size = 3, tx_blob = [1, 2, 3]\<rparr>, this')
       \<and> m_ledger this' = [[224, 25, 1, 0, 0, 0]] @ mid @ [[224, 121, 1, 0, 0, 0]]"
    by (auto simp: example_note_sel)
  with malformed fusion show ?thesis by blast
qed

text \<open>
  The claim as stated fails on the exits before the \<^verbatim>\<open>try\<close> block. With extra
  data the call fails and nothing at all is sent; with no fee and a single input it
  fails at the fusion check after \<open>RANDOM_KEY_PAIR\<close>, and that request is the only
  one sent. Neither exit issues \<open>TX_RESET\<close>.
\<close>

theorem createTransaction_exits_without_reset:
  "createTransaction example_env [example_output] [example_input ''0a''] [example_decoys] 3
       (Some 10) None None (Some ''memo'') example_note
     = (Inl (Error ''Supplying extra transaction data is not supported''), example_note)
   \<and> m_ledger example_note = []
   \<and> createTransaction example_env [example_output] [example_input ''0a''] [example_decoys] 3
       (Some 0) None None None example_note
     = (Inl (FusionMinInputs 20), example_note\<lparr>m_ledger := [[224, 25, 1, 0, 0, 0]]\<rparr>)
   \<and> [224, 121, 1, 0, 0, 0] \<notin> set (m_ledger (example_note\<lparr>m_ledger := [[224, 25, 1, 0, 0, 0]]\<rparr>))"
  by (simp add: ex_fusion_run example_note_sel)
     (simp add: createTransaction_def io_defs truthy_def)

subsection \<open>Prepared inputs\<close>

text \<open>The decoys chosen by the loop of lines 845-858, in closed form.\<close>

lemma mix_loop_closed:
  "length acc \<le> mixin \<Longrightarrow>
   mix_loop mixin g fakes acc =
     acc @ take (mixin - length acc)
             (map (\<lambda>f. \<lparr>pio_key = ro_key f, pio_index = ro_globalIndex f\<rparr>)
                (filter (\<lambda>f. ro_globalIndex f \<noteq> g) fakes))"
proof (induction fakes arbitrary: acc)
  case Nil
  then show ?case by simp
next
  case (Cons f fakes)
  show ?case
  proof (cases "length acc = mixin")
    case True
    with Cons show ?thesis by simp
  next
    case False
    with Cons.prems have lt: "length acc < mixin" by simp
    show ?thesis
    proof (cases "ro_globalIndex f = g")
      case True
      with False Cons show ?thesis by simp
    next
      case neq: False
      from lt have "length (acc @ [\<lparr>pio_key = ro_key f, pio_index = ro_globalIndex f\<rparr>]) \<le> mixin"
        by simp
      from Cons.IH [OF this] lt neq False show ?thesis
        by (simp add: take_Cons' Suc_diff_Suc)
    qed
  qed
qed

lemma find_real_none:
  "\<forall>m \<in> set ms. pio_index m \<noteq> g \<Longrightarrow> find_real g ms j found = found"
  by (induction ms arbitrary: j found) simp_all

lemma find_real_some:
  "\<exists>m \<in> set ms. pio_index m = g \<Longrightarrow>
   j \<le> find_real g ms j found \<and> find_real g ms j found < j + length ms
   \<and> pio_index (ms ! (find_real g ms j found - j)) = g"
proof (induction ms arbitrary: j found)
  case Nil
  then show ?case by simp
next
  case (Cons m ms)
  show ?case
  proof (cases "\<exists>m' \<in> set ms. pio_index m' = g")
    case True
    let ?r = "find_real g ms (Suc j) (if pio_index m = g then j else found)"
    from Cons.IH [OF True, of "Suc j" "if pio_index m = g then j else found"]
    have r: "Suc j \<le> ?r" "?r < Suc j + length ms" "pio_index (ms ! (?r - Suc j)) = g"
      by simp_all
    then have "?r - j = Suc (?r - Suc j)" by simp
    with r show ?thesis by simp
  next
    case False
    with Cons.prems have m: "pio_index m = g" by auto
    from False have "\<forall>m' \<in> set ms. pio_index m' \<noteq> g" by blast
    from find_real_none [OF this] m show ?thesis by simp
  qed
qed

text \<open>What one round of the preparation loop returns.\<close>

lemma prepare_input_ring:
  assumes "prepare_input mixin realOutput fakeOutputs = Inr p"
  shows "pi_outputs p =
           sort_key pio_index
             (take mixin
                (map (\<lambda>f. \<lparr>pio_key = ro_key f, pio_index = ro_globalIndex f\<rparr>)
                   (filter (\<lambda>f. ro_globalIndex f \<noteq> out_globalIndex realOutput)
                      (sort_key ro_globalIndex fakeOutputs)))
              @ [\<lparr>pio_key = out_key realOutput, pio_index = out_globalIndex realOutput\<rparr>])"
    and "mixin \<le> length (filter (\<lambda>f. ro_globalIndex f \<noteq> out_globalIndex realOutput)
                            (sort_key ro_globalIndex fakeOutputs))"
    and "realOutputIndex p = find_real (out_globalIndex realOutput) (pi_outputs p) 0 0"
    and "pi_keyImage p = string_of (out_keyImage realOutput)"
proof -
  have closed: "mix_loop mixin g fs [] =
      take mixin (map (\<lambda>f. \<lparr>pio_key = ro_key f, pio_index = ro_globalIndex f\<rparr>)
                    (filter (\<lambda>f. ro_globalIndex f \<noteq> g) fs))" for g fs
    using mix_loop_closed [of "[]" mixin g fs] by simp
  from assms show "pi_outputs p =
           sort_key pio_index
             (take mixin
                (map (\<lambda>f. \<lparr>pio_key = ro_key f, pio_index = ro_globalIndex f\<rparr>)
                   (filter (\<lambda>f. ro_globalIndex f \<noteq> out_globalIndex realOutput)
                      (sort_key ro_globalIndex fakeOutputs)))
              @ [\<lparr>pio_key = out_key realOutput, pio_index = out_globalIndex realOutput\<rparr>])"
    by (auto simp: prepare_input_def Let_def closed split: if_splits option.splits)
  from assms show "mixin \<le> length (filter (\<lambda>f. ro_globalIndex f \<noteq> out_globalIndex realOutput)
                            (sort_key ro_globalIndex fakeOutputs))"
    by (auto simp: prepare_input_def Let_def closed split: if_splits option.splits)
  from assms show "realOutputIndex p = find_real (out_globalIndex realOutput) (pi_outputs p) 0 0"
    by (auto simp: prepare_input_def Let_def split: if_splits option.splits)
  from assms show "pi_keyImage p = string_of (out_keyImage realOutput)"
    by (auto simp: prepare_input_def Let_def split: if_splits option.splits)
qed

lemma distinct_map_sort_key:
  "distinct (map f (sort_key g xs)) = distinct (map f xs)"
  by (simp add: distinct_map)

lemma prepare_input_props:
  assumes "prepare_input mixin realOutput fakeOutputs = Inr p"
  shows "length (pi_outputs p) = mixin + 1"
    and "sorted (map pio_index (pi_outputs p))"
    and "realOutputIndex p < length (pi_outputs p)"
    and "pi_outputs p ! realOutputIndex p
           = \<lparr>pio_key = out_key realOutput, pio_index = out_globalIndex realOutput\<rparr>"
    and "distinct (map ro_globalIndex fakeOutputs)
           \<Longrightarrow> sorted_wrt (<) (map pio_index (pi_outputs p))"
proof -
  let ?g = "out_globalIndex realOutput"
  let ?real = "\<lparr>pio_key = out_key realOutput, pio_index = ?g\<rparr>"
  let ?conv = "\<lambda>f. \<lparr>pio_key = ro_key f, pio_index = ro_globalIndex f\<rparr>"
  let ?F = "filter (\<lambda>f. ro_globalIndex f \<noteq> ?g) (sort_key ro_globalIndex fakeOutputs)"
  let ?L = "take mixin (map ?conv ?F) @ [?real]"
  note ring = prepare_input_ring [OF assms]
  have outs: "pi_outputs p = sort_key pio_index ?L" by (rule ring(1))
  from ring(2) show len: "length (pi_outputs p) = mixin + 1"
    by (simp add: outs)
  show srt: "sorted (map pio_index (pi_outputs p))"
    by (simp add: outs)
  have decoys: "pio_index m \<noteq> ?g" if "m \<in> set (take mixin (map ?conv ?F))" for m
  proof -
    from that have "m \<in> set (map ?conv ?F)" by (rule in_set_takeD)
    then show ?thesis by auto
  qed
  have only_real: "m = ?real" if "m \<in> set (pi_outputs p)" "pio_index m = ?g" for m
    using that decoys by (auto simp: outs)
  have ex: "\<exists>m \<in> set (pi_outputs p). pio_index m = ?g"
    by (rule bexI [of _ ?real]) (simp_all add: outs)
  from find_real_some [OF ex, of 0 0] ring(3)
  have r: "realOutputIndex p < length (pi_outputs p)"
    "pio_index (pi_outputs p ! realOutputIndex p) = ?g"
    by simp_all
  show "realOutputIndex p < length (pi_outputs p)" by (rule r(1))
  from r have "pi_outputs p ! realOutputIndex p \<in> set (pi_outputs p)" by simp
  from only_real [OF this r(2)] show "pi_outputs p ! realOutputIndex p = ?real" .
  assume d: "distinct (map ro_globalIndex fakeOutputs)"
  then have "distinct (map ro_globalIndex ?F)"
    by (simp add: distinct_map_filter distinct_map_sort_key)
  moreover have "map pio_index (map ?conv ?F) = map ro_globalIndex ?F"
    by (simp add: comp_def)
  ultimately have "distinct (map pio_index (map ?conv ?F))" by (simp only:)
  then have "distinct (take mixin (map pio_index (map ?conv ?F)))" by (rule distinct_take)
  then have dt: "distinct (map pio_index (take mixin (map ?conv ?F)))" by (simp add: take_map)
  have "?g \<notin> set (map pio_index (take mixin (map ?conv ?F)))"
  proof
    assume "?g \<in> set (map pio_index (take mixin (map ?conv ?F)))"
    then obtain m where "m \<in> set (take mixin (map ?conv ?F))" "pio_index m = ?g"
      by (auto simp: image_iff)
    with decoys show False by blast
  qed
  with dt have "distinct (map pio_index ?L)" by simp
  then have "distinct (map pio_index (pi_outputs p))"
    by (simp only: outs distinct_map_sort_key)
  with srt show "sorted_wrt (<) (map pio_index (pi_outputs p))"
    by (simp add: strict_sorted_iff)
qed

text \<open>Every prepared input comes from one of the inputs and one of the decoy sets.\<close>

lemma prepare_loop_members:
  assumes "prepare_loop randomOutputs mixin i inputs acc = Inr r"
    and "mixin \<noteq> 0 \<Longrightarrow> i + length inputs \<le> length randomOutputs"
    and "p \<in> set r"
  shows "p \<in> set acc
         \<or> (\<exists>inp \<in> set inputs. \<exists>fakes.
               (fakes = [] \<or> fakes \<in> set randomOutputs)
               \<and> prepare_input mixin inp fakes = Inr p)"
  using assms
proof (induction inputs arbitrary: i acc)
  case Nil
  then show ?case by simp
next
  case (Cons a inputs)
  let ?fakes = "if mixin \<noteq> 0 then randomOutputs ! i else []"
  from Cons.prems(1) obtain q where
    q: "prepare_input mixin a ?fakes = Inr q"
    and rest: "prepare_loop randomOutputs mixin (Suc i) inputs (acc @ [q]) = Inr r"
    by (auto dest!: sum_bind_Inr)
  have fk: "?fakes = [] \<or> ?fakes \<in> set randomOutputs"
    using Cons.prems(2) by (cases "mixin = 0") simp_all
  have "mixin \<noteq> 0 \<Longrightarrow> Suc i + length inputs \<le> length randomOutputs"
    using Cons.prems(2) by simp
  from Cons.IH [OF rest this Cons.prems(3)]
  have "p \<in> set (acc @ [q])
        \<or> (\<exists>inp \<in> set inputs. \<exists>fakes.
              (fakes = [] \<or> fakes \<in> set randomOutputs)
              \<and> prepare_input mixin inp fakes = Inr p)" .
  then show ?case
  proof (elim disjE)
    assume "p \<in> set (acc @ [q])"
    then have "p \<in> set acc \<or> p = q" by auto
    then show ?thesis
    proof
      assume "p \<in> set acc"
      then show ?thesis by simp
    next
      assume "p = q"
      with q fk show ?thesis by (intro disjI2 bexI [of _ a] exI [of _ ?fakes]) simp_all
    qed
  next
    assume "\<exists>inp \<in> set inputs. \<exists>fakes.
              (fakes = [] \<or> fakes \<in> set randomOutputs)
              \<and> prepare_input mixin inp fakes = Inr p"
    then show ?thesis by auto
  qed
qed

lemma prepareTransactionInputs_members:
  assumes "prepareTransactionInputs inputs randomOutputs mixin = Inr prepared"
    and "p \<in> set prepared"
  shows "\<exists>inp \<in> set inputs. \<exists>fakes.
           (fakes = [] \<or> fakes \<in> set randomOutputs)
           \<and> prepare_input mixin inp fakes = Inr p"
proof -
  from assms(1) have loop: "prepare_loop randomOutputs mixin 0 inputs [] = Inr prepared"
    and len: "length inputs = length randomOutputs \<or> mixin = 0"
    by (auto simp: prepareTransactionInputs_def split: if_splits)
  from len have "mixin \<noteq> 0 \<Longrightarrow> 0 + length inputs \<le> length randomOutputs" by auto
  from prepare_loop_members [OF loop this assms(2)] show ?thesis by simp
qed

text \<open>The sort of lines 622-624.\<close>

lemma all_results_Inr: "all_results rs = Inr xs \<Longrightarrow> r \<in> set rs \<Longrightarrow> \<exists>x. r = Inr x"
  by (induction rs arbitrary: xs) (auto split: sum.splits)

lemma sort_by_keyImage_parsed:
  assumes "sort_by_keyImage xs = Inr ys" and "2 \<le> length xs" and "p \<in> set xs"
  shows "BigInteger16 (pi_keyImage p) = Inr (keyImage_value p)"
proof -
  from assms(1,2) obtain vs where
    "all_results (map (\<lambda>p. BigInteger16 (pi_keyImage p)) xs) = Inr vs"
    by (auto simp: sort_by_keyImage_def split: if_splits dest!: sum_bind_Inr)
  from all_results_Inr [OF this, of "BigInteger16 (pi_keyImage p)"] assms(3)
  obtain v where "BigInteger16 (pi_keyImage p) = Inr v" by auto
  then show ?thesis by (simp add: keyImage_value_def)
qed

lemma sort_by_keyImage_props:
  assumes "sort_by_keyImage xs = Inr ys"
  shows "set ys = set xs" and "length ys = length xs"
    and "sorted_wrt (\<lambda>a b. keyImage_value a \<ge> keyImage_value b) ys"
    and "distinct (map keyImage_value xs)
           \<Longrightarrow> sorted_wrt (\<lambda>a b. keyImage_value a > keyImage_value b) ys"
proof -
  have ys: "ys = xs \<and> length xs < 2 \<or> ys = sort_key (\<lambda>p. - keyImage_value p) xs"
    using assms by (auto simp: sort_by_keyImage_def split: if_splits dest!: sum_bind_Inr)
  then show "set ys = set xs" and "length ys = length xs" by auto
  have short: "sorted_wrt P xs" if "length xs < 2" for P :: "PreparedInput \<Rightarrow> PreparedInput \<Rightarrow> bool"
    using that by (cases xs; cases "tl xs") auto
  have desc: "sorted_wrt (\<lambda>a b. keyImage_value a \<ge> keyImage_value b)
                (sort_key (\<lambda>p. - keyImage_value p) xs)"
    using sorted_sort_key [of "\<lambda>p. - keyImage_value p" xs] by (simp add: sorted_map)
  from ys short desc show weak: "sorted_wrt (\<lambda>a b. keyImage_value a \<ge> keyImage_value b) ys"
    by auto
  assume d: "distinct (map keyImage_value xs)"
  have "distinct (map keyImage_value ys)"
    using ys d by (auto simp: distinct_map_sort_key)
  moreover from weak have "sorted (rev (map keyImage_value ys))"
    by (simp add: sorted_wrt_rev sorted_wrt_map flip: rev_map)
  ultimately have "sorted_wrt (<) (rev (map keyImage_value ys))"
    by (simp add: strict_sorted_iff)
  then show "sorted_wrt (\<lambda>a b. keyImage_value a > keyImage_value b) ys"
    by (simp add: sorted_wrt_rev sorted_wrt_map flip: rev_map)
qed

text \<open>
  Claim C7, as amended. After the preparation and the sort, which
  \<open>createTransaction\<close> runs before its \<^verbatim>\<open>try\<close> block and so before any
  \<open>TX_LOAD_INPUT\<close>: the prepared inputs are in descending order of the key image
  read as a hexadecimal integer, where equal key images may stand next to each other;
  the order is strict when the key images are pairwise different. The sorted list is a
  rearrangement of the prepared one, one element per input. In every prepared input
  the ring has exactly \<open>mixin + 1\<close> entries in ascending order of the index, where
  decoys of the same global index may stand next to each other, and the entry at
  \<open>realOutputIndex\<close> is the real output (its key and global index). The ring is
  strictly ascending when the decoys of every set have pairwise different global
  indices.
\<close>

theorem prepared_inputs_order:
  assumes "prepareTransactionInputs inputs randomOutputs mixin = Inr prepared"
    and "sort_by_keyImage prepared = Inr sorted_inputs"
  shows "sorted_wrt (\<lambda>a b. keyImage_value a \<ge> keyImage_value b) sorted_inputs
    \<and> (distinct (map keyImage_value prepared)
         \<longrightarrow> sorted_wrt (\<lambda>a b. keyImage_value a > keyImage_value b) sorted_inputs)
    \<and> (2 \<le> length sorted_inputs
         \<longrightarrow> (\<forall>p \<in> set sorted_inputs. BigInteger16 (pi_keyImage p) = Inr (keyImage_value p)))
    \<and> set sorted_inputs = set prepared \<and> length sorted_inputs = length inputs
    \<and> (\<forall>p \<in> set sorted_inputs.
          length (pi_outputs p) = mixin + 1
          \<and> sorted (map pio_index (pi_outputs p))
          \<and> realOutputIndex p < length (pi_outputs p)
          \<and> (\<exists>inp \<in> set inputs.
                pi_keyImage p = string_of (out_keyImage inp)
                \<and> pi_outputs p ! realOutputIndex p
                    = \<lparr>pio_key = out_key inp, pio_index = out_globalIndex inp\<rparr>))
    \<and> ((\<forall>ros \<in> set randomOutputs. distinct (map ro_globalIndex ros))
         \<longrightarrow> (\<forall>p \<in> set sorted_inputs. sorted_wrt (<) (map pio_index (pi_outputs p))))"
proof -
  note srt = sort_by_keyImage_props [OF assms(2)]
  have len: "length prepared = length inputs"
    using assms(1) by (rule prepareTransactionInputs_length)
  have member: "\<exists>inp \<in> set inputs. \<exists>fakes.
           (fakes = [] \<or> fakes \<in> set randomOutputs)
           \<and> prepare_input mixin inp fakes = Inr p" if "p \<in> set sorted_inputs" for p
    using prepareTransactionInputs_members [OF assms(1)] that srt(1) by blast
  have ring: "length (pi_outputs p) = mixin + 1
          \<and> sorted (map pio_index (pi_outputs p))
          \<and> realOutputIndex p < length (pi_outputs p)
          \<and> (\<exists>inp \<in> set inputs.
                pi_keyImage p = string_of (out_keyImage inp)
                \<and> pi_outputs p ! realOutputIndex p
                    = \<lparr>pio_key = out_key inp, pio_index = out_globalIndex inp\<rparr>)"
    if "p \<in> set sorted_inputs" for p
  proof -
    from member [OF that] obtain inp fakes where
      inp: "inp \<in> set inputs" and p: "prepare_input mixin inp fakes = Inr p"
      by blast
    from prepare_input_props(1-4) [OF p] prepare_input_ring(4) [OF p] inp
    show ?thesis by blast
  qed
  have strict: "sorted_wrt (<) (map pio_index (pi_outputs p))"
    if "\<forall>ros \<in> set randomOutputs. distinct (map ro_globalIndex ros)"
      and "p \<in> set sorted_inputs" for p
  proof -
    from member [OF that(2)] obtain inp fakes where
      fk: "fakes = [] \<or> fakes \<in> set randomOutputs"
      and p: "prepare_input mixin inp fakes = Inr p"
      by blast
    from fk that(1) have "distinct (map ro_globalIndex fakes)" by auto
    from prepare_input_props(5) [OF p this] show ?thesis .
  qed
  have parsed: "BigInteger16 (pi_keyImage p) = Inr (keyImage_value p)"
    if "2 \<le> length sorted_inputs" and "p \<in> set sorted_inputs" for p
    using sort_by_keyImage_parsed [OF assms(2), of p] that srt(1,2) by simp
  show ?thesis
  proof (intro conjI impI ballI)
    show "sorted_wrt (\<lambda>a b. keyImage_value a \<ge> keyImage_value b) sorted_inputs"
      by (rule srt(3))
    show "sorted_wrt (\<lambda>a b. keyImage_value a > keyImage_value b) sorted_inputs"
      if "distinct (map keyImage_value prepared)"
      using that by (rule srt(4))
    show "BigInteger16 (pi_keyImage p) = Inr (keyImage_value p)"
      if "2 \<le> length sorted_inputs" "p \<in> set sorted_inputs" for p
      using that by (rule parsed)
    show "set sorted_inputs = set prepared" by (rule srt(1))
    show "length sorted_inputs = length inputs" using srt(2) len by simp
    show "length (pi_outputs p) = mixin + 1" if "p \<in> set sorted_inputs" for p
      using ring [OF that] by blast
    show "sorted (map pio_index (pi_outputs p))" if "p \<in> set sorted_inputs" for p
      using ring [OF that] by blast
    show "realOutputIndex p < length (pi_outputs p)" if "p \<in> set sorted_inputs" for p
      using ring [OF that] by blast
    show "\<exists>inp \<in> set inputs.
                pi_keyImage p = string_of (out_keyImage inp)
                \<and> pi_outputs p ! realOutputIndex p
                    = \<lparr>pio_key = out_key inp, pio_index = out_globalIndex inp\<rparr>"
      if "p \<in> set sorted_inputs" for p
      using ring [OF that] by blast
    show "sorted_wrt (<) (map pio_index (pi_outputs p))"
      if "\<forall>ros \<in> set randomOutputs. distinct (map ro_globalIndex ros)"
        "p \<in> set sorted_inputs" for p
      using that by (rule strict)
  qed
qed

lemma ex_prepare_two:
  "prepareTransactionInputs [example_input ''0a'', example_input ''ff'']
       [example_decoys, example_decoys] 3
     = Inr [example_prepared ''0a'', example_prepared ''ff'']"
  "prepareTransactionInputs [example_input ''0a'', example_input ''0a'']
       [example_decoys, example_decoys] 3
     = Inr [example_prepared ''0a'', example_prepared ''0a'']"
  by (simp_all add: prepareTransactionInputs_def prepare_input_def example_input_def
        example_decoys_def example_prepared_def truthy_def string_of_def sum_bind_def
        Let_def)

lemma ex_keyImage_value:
  "BigInteger16 ''0a'' = Inr 10" "BigInteger16 ''ff'' = Inr 255"
  by (simp_all add: BigInteger16_def is_hex_char_def hex_val_def)

lemma ex_sort_two:
  "sort_by_keyImage [example_prepared ''0a'', example_prepared ''ff'']
     = Inr [example_prepared ''ff'', example_prepared ''0a'']"
  "sort_by_keyImage [example_prepared ''0a'', example_prepared ''0a'']
     = Inr [example_prepared ''0a'', example_prepared ''0a'']"
  by (simp_all add: sort_by_keyImage_def keyImage_value_def example_prepared_def
        ex_keyImage_value sum_bind_def)

theorem prepared_inputs_order_witness:
  "prepareTransactionInputs [example_input ''0a'', example_input ''ff'']
       [example_decoys, example_decoys] 3
     = Inr [example_prepared ''0a'', example_prepared ''ff'']
   \<and> sort_by_keyImage [example_prepared ''0a'', example_prepared ''ff'']
     = Inr [example_prepared ''ff'', example_prepared ''0a'']
   \<and> sorted_wrt (\<lambda>a b. keyImage_value a > keyImage_value b)
        [example_prepared ''ff'', example_prepared ''0a'']
   \<and> BigInteger16 (pi_keyImage (example_prepared ''ff''))
       = Inr (keyImage_value (example_prepared ''ff''))
   \<and> length (pi_outputs (example_prepared ''ff'')) = 3 + 1
   \<and> sorted_wrt (<) (map pio_index (pi_outputs (example_prepared ''ff'')))
   \<and> realOutputIndex (example_prepared ''ff'') < length (pi_outputs (example_prepared ''ff''))"
proof -
  have d1: "distinct (map keyImage_value [example_prepared ''0a'', example_prepared ''ff''])"
    by (simp add: keyImage_value_def example_prepared_def ex_keyImage_value)
  have d2: "\<forall>ros \<in> set [example_decoys, example_decoys]. distinct (map ro_globalIndex ros)"
    by (simp add: example_decoys_def)
  have two: "2 \<le> length [example_prepared ''ff'', example_prepared ''0a'']" by simp
  have mem: "example_prepared ''ff'' \<in> set [example_prepared ''ff'', example_prepared ''0a'']"
    by simp
  from prepared_inputs_order [OF ex_prepare_two(1) ex_sort_two(1)] d1 d2 two mem
  show ?thesis using ex_prepare_two(1) ex_sort_two(1) by blast
qed

text \<open>
  The claim as stated asks for strict orders. Two inputs with the same key image are
  prepared and sorted without complaint and stand next to each other; and a set of
  decoys in which two have the global index 5 gives a ring with the indices
  5, 5, 7, 9.
\<close>

theorem prepared_inputs_not_strict:
  "prepareTransactionInputs [example_input ''0a'', example_input ''0a'']
       [example_decoys, example_decoys] 3
     = Inr [example_prepared ''0a'', example_prepared ''0a'']
   \<and> sort_by_keyImage [example_prepared ''0a'', example_prepared ''0a'']
     = Inr [example_prepared ''0a'', example_prepared ''0a'']
   \<and> \<not> sorted_wrt (\<lambda>a b. keyImage_value a > keyImage_value b)
          [example_prepared ''0a'', example_prepared ''0a'']
   \<and> (\<exists>p. prepareTransactionInputs [example_input ''0a''] [example_decoys_twice] 3 = Inr [p]
          \<and> map pio_index (pi_outputs p) = [5, 5, 7, 9]
          \<and> \<not> sorted_wrt (<) (map pio_index (pi_outputs p)))"
proof -
  have "\<exists>p. prepareTransactionInputs [example_input ''0a''] [example_decoys_twice] 3 = Inr [p]
          \<and> map pio_index (pi_outputs p) = [5, 5, 7, 9]
          \<and> \<not> sorted_wrt (<) (map pio_index (pi_outputs p))"
    by (simp add: prepareTransactionInputs_def prepare_input_def example_input_def
          example_decoys_twice_def truthy_def string_of_def sum_bind_def Let_def)
  then show ?thesis by (simp add: ex_prepare_two(2) ex_sort_two(2))
qed

subsection \<open>Decomposition with a positive maximum\<close>

lemma split_loop_closed:
  assumes "0 < mx"
  shows "0 \<le> s \<Longrightarrow>
         split_loop mx dest s acc
           = Some (acc @ replicate (nat (s div mx)) \<lparr>go_amount = mx, go_destination = dest\<rparr>)"
proof (induction "nat s" arbitrary: s acc rule: less_induct)
  case less
  show ?case
  proof (cases "mx \<le> s")
    case False
    with less.prems assms have "s div mx = 0" by (simp add: div_pos_pos_trivial)
    with False show ?thesis by (subst split_loop.simps) simp
  next
    case True
    with assms have s': "0 \<le> s - mx" "nat (s - mx) < nat s" by simp_all
    have d: "s div mx = (s - mx) div mx + 1"
      using assms by (metis diff_add_cancel div_add_self2 less_irrefl)
    have "0 \<le> (s - mx) div mx" using s'(1) assms by (simp add: pos_imp_zdiv_nonneg_iff)
    then have "nat (s div mx) = Suc (nat ((s - mx) div mx))" using d by simp
    with less.hyps [OF s'(2) s'(1), of "acc @ [\<lparr>go_amount = mx, go_destination = dest\<rparr>]"] True
    show ?thesis by (subst split_loop.simps) (simp add: replicate_app_Cons_same)
  qed
qed

lemma parseInt_digit: "d < 10 \<Longrightarrow> parseInt (''0123456789'' ! d) = int d"
proof -
  assume "d < 10"
  then have "d \<in> {0, 1, 2, 3, 4, 5, 6, 7, 8, 9}" by auto
  then show ?thesis by (auto simp: parseInt_def)
qed

lemma pieces_total_append:
  "pieces_total i (cs @ ds) = pieces_total i cs + pieces_total (i + length cs) ds"
  by (induction cs arbitrary: i) simp_all

lemma pieces_total_Suc: "pieces_total (Suc i) cs = 10 * pieces_total i cs"
  by (induction cs arbitrary: i) (simp_all add: algebra_simps)

lemma toString_digits:
  "c \<in> set (toString n) \<Longrightarrow> \<exists>d. d < 10 \<and> parseInt c = int d"
proof (induction n rule: toString.induct)
  case (1 n)
  show ?case
  proof (cases "n < 10")
    case True
    with "1.prems" have "c = ''0123456789'' ! n" by (simp add: toString.simps)
    with True parseInt_digit show ?thesis by blast
  next
    case False
    with "1.prems" have "c \<in> set (toString (n div 10)) \<or> c = ''0123456789'' ! (n mod 10)"
      by (subst (asm) toString.simps) auto
    then show ?thesis
    proof
      assume "c \<in> set (toString (n div 10))"
      from "1.IH" [OF False this] show ?thesis .
    next
      assume "c = ''0123456789'' ! (n mod 10)"
      moreover have "n mod 10 < 10" by simp
      ultimately show ?thesis using parseInt_digit by blast
    qed
  qed
qed

lemma toString_total: "pieces_total 0 (rev (toString n)) = int n"
proof (induction n rule: toString.induct)
  case (1 n)
  show ?case
  proof (cases "n < 10")
    case True
    then show ?thesis by (simp add: toString.simps parseInt_digit)
  next
    case False
    have m: "n mod 10 < 10" by simp
    from False have "rev (toString n) = (''0123456789'' ! (n mod 10)) # rev (toString (n div 10))"
      by (subst toString.simps) simp
    then have "pieces_total 0 (rev (toString n))
                 = int (n mod 10) + 10 * pieces_total 0 (rev (toString (n div 10)))"
      by (simp add: pieces_total_Suc parseInt_digit [OF m] del: One_nat_def)
    also have "\<dots> = int (n mod 10) + 10 * int (n div 10)" using "1.IH" [OF False] by simp
    also have "\<dots> = int n" by presburger
    finally show ?thesis .
  qed
qed

lemma piece_above_power:
  assumes "d < 10" and "int d * 10 ^ i > 10 ^ m"
  shows "m \<le> i"
proof (rule ccontr)
  assume "\<not> m \<le> i"
  then have "Suc i \<le> m" by simp
  then have "(10 :: int) ^ Suc i \<le> 10 ^ m" by (rule power_increasing) simp
  moreover have "int d * 10 ^ i < 10 * 10 ^ i"
    using assms(1) by (intro mult_strict_right_mono) simp_all
  ultimately show False using assms(2) by simp
qed

lemma pieces_loop_power_of_ten:
  assumes "\<forall>c \<in> set cs. \<exists>d. d < 10 \<and> parseInt c = int d"
  shows "\<exists>r. pieces_loop (10 ^ m) dest i cs acc = Some (acc @ r)
           \<and> sum_list (map go_amount r) = pieces_total i cs
           \<and> (\<forall>piece \<in> set r. go_destination piece = dest
                  \<and> (go_amount piece = 10 ^ m
                      \<or> (\<exists>d k. 1 \<le> d \<and> d \<le> 9 \<and> go_amount piece = int d * 10 ^ k)))"
  using assms
proof (induction cs arbitrary: i acc)
  case Nil
  then show ?case by simp
next
  case (Cons c cs)
  from Cons.prems obtain d where d: "d < 10" "parseInt c = int d" by auto
  from Cons.prems have rest: "\<forall>c \<in> set cs. \<exists>d. d < 10 \<and> parseInt c = int d" by simp
  let ?amt = "int d * 10 ^ i"
  let ?x = "\<lparr>go_amount = 10 ^ m, go_destination = dest\<rparr>"
  show ?case
  proof (cases "?amt > 10 ^ m")
    case True
    from piece_above_power [OF d(1) True] have mi: "m \<le> i" .
    then have pw: "(10 :: int) ^ i = 10 ^ (i - m) * 10 ^ m"
      by (simp flip: power_add)
    then have dv: "?amt div 10 ^ m = int d * 10 ^ (i - m)" by simp
    let ?n = "nat (?amt div 10 ^ m)"
    have n: "int ?n * 10 ^ m = ?amt" using dv pw by simp
    have split: "split_loop (10 ^ m) dest ?amt acc = Some (acc @ replicate ?n ?x)"
      by (rule split_loop_closed) simp_all
    from Cons.IH [OF rest, of "Suc i" "acc @ replicate ?n ?x"]
    obtain r where r: "pieces_loop (10 ^ m) dest (Suc i) cs (acc @ replicate ?n ?x)
                         = Some ((acc @ replicate ?n ?x) @ r)"
      "sum_list (map go_amount r) = pieces_total (Suc i) cs"
      "\<forall>piece \<in> set r. go_destination piece = dest
          \<and> (go_amount piece = 10 ^ m
              \<or> (\<exists>d k. 1 \<le> d \<and> d \<le> 9 \<and> go_amount piece = int d * 10 ^ k))"
      by blast
    have "pieces_loop (10 ^ m) dest i (c # cs) acc = Some (acc @ (replicate ?n ?x @ r))"
      using True d(2) split r(1) by simp
    moreover have "sum_list (map go_amount (replicate ?n ?x @ r)) = pieces_total i (c # cs)"
      using r(2) d(2) n by (simp add: sum_list_replicate)
    moreover have "\<forall>piece \<in> set (replicate ?n ?x @ r). go_destination piece = dest
          \<and> (go_amount piece = 10 ^ m
              \<or> (\<exists>d k. 1 \<le> d \<and> d \<le> 9 \<and> go_amount piece = int d * 10 ^ k))"
      using r(3) by auto
    ultimately show ?thesis by blast
  next
    case False
    show ?thesis
    proof (cases "?amt = 0")
      case True
      from Cons.IH [OF rest, of "Suc i" acc]
      obtain r where r: "pieces_loop (10 ^ m) dest (Suc i) cs acc = Some (acc @ r)"
        "sum_list (map go_amount r) = pieces_total (Suc i) cs"
        "\<forall>piece \<in> set r. go_destination piece = dest
            \<and> (go_amount piece = 10 ^ m
                \<or> (\<exists>d k. 1 \<le> d \<and> d \<le> 9 \<and> go_amount piece = int d * 10 ^ k))"
        by blast
      from True have "pieces_loop (10 ^ m) dest i (c # cs) acc = Some (acc @ r)"
        using d(2) r(1) by simp
      moreover have "sum_list (map go_amount r) = pieces_total i (c # cs)"
        using r(2) d(2) True by simp
      ultimately show ?thesis using r(3) by blast
    next
      case nz: False
      then have d1: "1 \<le> d" "d \<le> 9" using d(1) by (cases d; simp)+
      let ?y = "\<lparr>go_amount = ?amt, go_destination = dest\<rparr>"
      from Cons.IH [OF rest, of "Suc i" "acc @ [?y]"]
      obtain r where r: "pieces_loop (10 ^ m) dest (Suc i) cs (acc @ [?y])
                           = Some ((acc @ [?y]) @ r)"
        "sum_list (map go_amount r) = pieces_total (Suc i) cs"
        "\<forall>piece \<in> set r. go_destination piece = dest
            \<and> (go_amount piece = 10 ^ m
                \<or> (\<exists>d k. 1 \<le> d \<and> d \<le> 9 \<and> go_amount piece = int d * 10 ^ k))"
        by blast
      have "pieces_loop (10 ^ m) dest i (c # cs) acc = Some (acc @ (?y # r))"
        using False nz d(2) r(1) by simp
      moreover have "sum_list (map go_amount (?y # r)) = pieces_total i (c # cs)"
        using r(2) d(2) by simp
      moreover have "\<forall>piece \<in> set (?y # r). go_destination piece = dest
            \<and> (go_amount piece = 10 ^ m
                \<or> (\<exists>d k. 1 \<le> d \<and> d \<le> 9 \<and> go_amount piece = int d * 10 ^ k))"
        using r(3) d1 by auto
      ultimately show ?thesis by blast
    qed
  qed
qed

text \<open>
  With a maximum that is a power of ten, every piece above it is a multiple of it and
  nothing is lost: the call returns, the amounts sum to the amount asked for, and each
  is the maximum or a digit from 1 to 9 times a power of ten.
\<close>

theorem generateTransactionOutputs_power_of_ten:
  assumes "0 \<le> amount" and "fromAddress address = Inr dest"
    and "js_or (maximumOutputAmount this_config) (maximumOutputAmount Config_json) = 10 ^ m"
  shows "\<exists>outs. generateTransactionOutputs fromAddress this_config Config_json address amount
                  = Some (Inr outs)
           \<and> sum_list (map go_amount outs) = amount
           \<and> (\<forall>piece \<in> set outs. go_destination piece = dest
                  \<and> (go_amount piece = 10 ^ m
                      \<or> (\<exists>d k. 1 \<le> d \<and> d \<le> 9 \<and> go_amount piece = int d * 10 ^ k)))"
proof -
  have digits: "\<forall>c \<in> set (rev (toString (nat amount))). \<exists>d. d < 10 \<and> parseInt c = int d"
    using toString_digits by simp
  from pieces_loop_power_of_ten [OF digits, of m dest 0 "[]"]
  obtain r where r: "pieces_loop (10 ^ m) dest 0 (rev (toString (nat amount))) [] = Some r"
    "sum_list (map go_amount r) = pieces_total 0 (rev (toString (nat amount)))"
    "\<forall>piece \<in> set r. go_destination piece = dest
        \<and> (go_amount piece = 10 ^ m
            \<or> (\<exists>d k. 1 \<le> d \<and> d \<le> 9 \<and> go_amount piece = int d * 10 ^ k))"
    by auto
  from r(2) assms(1) have "sum_list (map go_amount r) = amount"
    by (simp add: toString_total)
  with r(1,3) assms show ?thesis
    by (simp add: generateTransactionOutputs_def)
qed

theorem generateTransactionOutputs_power_of_ten_witness:
  "\<exists>outs. generateTransactionOutputs (\<lambda>a. Inr (go_destination example_output)) example_Config
             example_Config ''address'' 123 = Some (Inr outs)
          \<and> sum_list (map go_amount outs) = 123"
proof -
  have a: "(0 :: int) \<le> 123" by simp
  have b: "(\<lambda>a :: string. (Inr (go_destination example_output) :: error + Address)) ''address''
             = Inr (go_destination example_output)" by simp
  have c: "js_or (maximumOutputAmount example_Config) (maximumOutputAmount example_Config)
             = 10 ^ 5"
    by (simp add: js_or_def example_Config_def)
  from generateTransactionOutputs_power_of_ten [OF a b c] show ?thesis by blast
qed

subsection \<open>A scan returns every output or none\<close>

lemma promise_all_length:
  "promise_all ps s = (Inr xs, s') \<Longrightarrow> length xs = length ps"
proof (induction ps arbitrary: s xs s')
  case Nil
  then show ?case by (simp add: io_return_def)
next
  case (Cons p ps)
  obtain r s1 where p: "p s = (r, s1)" by (cases "p s")
  obtain rs s2 where ps: "promise_all ps s1 = (rs, s2)" by (cases "promise_all ps s1")
  from Cons.prems p ps obtain x ys where "r = Inr x" "rs = Inr ys" "xs = x # ys"
    by (auto split: sum.splits)
  with Cons.IH [of s1 ys s2] ps show ?case by simp
qed

text \<open>
  Whenever \<open>scanTransactionOutputs\<close> returns, it returns as many outputs as it was
  given: no output is ever skipped. A scan over a list that holds an output that is not
  ours does not return.
\<close>

theorem scanTransactionOutputs_returns_all:
  assumes "scanTransactionOutputs env transactionPublicKey outs privateViewKey publicSpendKey
             privateSpendKey generatePartial this = (Inr ours, this')"
  shows "length ours = length outs"
proof -
  have push: "foldl (\<lambda>ourOutputs result. ourOutputs @ [result]) acc xs = acc @ xs"
    for acc xs :: "Output list"
    by (induction xs arbitrary: acc) simp_all
  from assms obtain results s1 where
    all: "promise_all
            (map (\<lambda>output.
                    promise_catch None
                      (isOurTransactionOutput env transactionPublicKey output privateViewKey
                         publicSpendKey privateSpendKey generatePartial))
               outs) this = (Inr results, s1)"
    and ours: "ours = foldl (\<lambda>ourOutputs result. ourOutputs @ [result]) [] results"
    by (auto simp: scanTransactionOutputs_def io_bind_def io_return_def
          split: prod.splits sum.splits)
  from promise_all_length [OF all] ours show ?thesis by (simp add: push)
qed

theorem scanTransactionOutputs_returns_all_witness:
  "\<exists>ours this'.
     scanTransactionOutputs example_env (example_key (CHR ''b''))
       [\<lparr>out_index = 0, out_key = example_key (CHR ''e''), out_globalIndex = 7,
         out_amount = 100, out_input = None, out_keyImage = None\<rparr>]
       None None None False (example_note\<lparr>m_fetched := True\<rparr>) = (Inr ours, this')
     \<and> length ours = 1"
proof -
  have "\<exists>ours this'.
     scanTransactionOutputs example_env (example_key (CHR ''b''))
       [\<lparr>out_index = 0, out_key = example_key (CHR ''e''), out_globalIndex = 7,
         out_amount = 100, out_input = None, out_keyImage = None\<rparr>]
       None None None False (example_note\<lparr>m_fetched := True\<rparr>) = (Inr ours, this')"
    by (simp add: scanTransactionOutputs_def promise_catch_def isOurTransactionOutput_def
          generateKeyImage_def generateKeyImagePrimitive_def ensure_ready_def on_ledger_def
          io_defs example_env_def example_crypto_def example_note_def Let_def)
  then obtain ours this' where
    run: "scanTransactionOutputs example_env (example_key (CHR ''b''))
       [\<lparr>out_index = 0, out_key = example_key (CHR ''e''), out_globalIndex = 7,
         out_amount = 100, out_input = None, out_keyImage = None\<rparr>]
       None None None False (example_note\<lparr>m_fetched := True\<rparr>) = (Inr ours, this')"
    by blast
  from scanTransactionOutputs_returns_all [OF run] run show ?thesis by auto
qed

end
